theory Spec2Isabelle
  imports Complex_Main
begin

section \<open>Numbers and tables\<close>

text \<open>
  The program is the class \<open>DCFAnalysis\<close> of \<open>DCF analysis.py\<close>. Its numbers are
  IEEE doubles held in pandas columns and numpy arrays. A double is modelled as a
  finite value (a real number: rounding and overflow are abstracted away) or one of
  the three special values. The special values are kept because pandas and numpy do
  not raise on a division by zero: they return an infinity or NaN, and a NaN is what
  \<open>pct_change\<close> puts in the first row and what \<open>mean\<close> skips. Signed zeros are not
  modelled: a zero divisor counts as \<open>+0\<close>. Because the finite arithmetic is exact, a
  strict inequality between two computed values is not carried over to the code (its
  doubles can round them to the same value); the theorems below conclude equalities
  between what the program computes, and orders only in the non-strict form.
\<close>

datatype fl = Fin real | PInf | NInf | NaN

fun fneg :: "fl \<Rightarrow> fl" where
  "fneg (Fin a) = Fin (- a)"
| "fneg PInf = NInf"
| "fneg NInf = PInf"
| "fneg NaN = NaN"

fun fadd :: "fl \<Rightarrow> fl \<Rightarrow> fl" where
  "fadd (Fin a) (Fin b) = Fin (a + b)"
| "fadd NaN _ = NaN"
| "fadd _ NaN = NaN"
| "fadd PInf NInf = NaN"
| "fadd NInf PInf = NaN"
| "fadd PInf _ = PInf"
| "fadd _ PInf = PInf"
| "fadd NInf _ = NInf"
| "fadd _ NInf = NInf"

definition fsub :: "fl \<Rightarrow> fl \<Rightarrow> fl" where
  "fsub a b = fadd a (fneg b)"

text \<open>The sign of an infinite product or quotient: \<open>inf * 0\<close> is NaN.\<close>

definition signed_inf :: "real \<Rightarrow> fl" where
  "signed_inf a = (if a = 0 then NaN else if 0 < a then PInf else NInf)"

fun fmul :: "fl \<Rightarrow> fl \<Rightarrow> fl" where
  "fmul (Fin a) (Fin b) = Fin (a * b)"
| "fmul NaN _ = NaN"
| "fmul _ NaN = NaN"
| "fmul (Fin a) PInf = signed_inf a"
| "fmul (Fin a) NInf = signed_inf (- a)"
| "fmul PInf (Fin b) = signed_inf b"
| "fmul NInf (Fin b) = signed_inf (- b)"
| "fmul PInf PInf = PInf"
| "fmul PInf NInf = NInf"
| "fmul NInf PInf = NInf"
| "fmul NInf NInf = PInf"

text \<open>
  Division as numpy and pandas do it (a warning, never an exception): \<open>x / 0\<close> is an
  infinity of the sign of \<open>x\<close>, \<open>0 / 0\<close> is NaN.
\<close>

fun fdiv :: "fl \<Rightarrow> fl \<Rightarrow> fl" where
  "fdiv (Fin a) (Fin b) = (if b = 0 then signed_inf a else Fin (a / b))"
| "fdiv NaN _ = NaN"
| "fdiv _ NaN = NaN"
| "fdiv (Fin a) PInf = Fin 0"
| "fdiv (Fin a) NInf = Fin 0"
| "fdiv PInf (Fin b) = (if 0 \<le> b then PInf else NInf)"
| "fdiv NInf (Fin b) = (if 0 \<le> b then NInf else PInf)"
| "fdiv PInf PInf = NaN"
| "fdiv PInf NInf = NaN"
| "fdiv NInf PInf = NaN"
| "fdiv NInf NInf = NaN"

text \<open>Comparison of doubles: every comparison with NaN is false.\<close>

fun fless :: "fl \<Rightarrow> fl \<Rightarrow> bool" where
  "fless (Fin a) (Fin b) = (a < b)"
| "fless NaN _ = False"
| "fless _ NaN = False"
| "fless _ NInf = False"
| "fless PInf _ = False"
| "fless NInf _ = True"
| "fless _ PInf = True"

fun fle :: "fl \<Rightarrow> fl \<Rightarrow> bool" where
  "fle (Fin a) (Fin b) = (a \<le> b)"
| "fle NaN _ = False"
| "fle _ NaN = False"
| "fle NInf _ = True"
| "fle _ PInf = True"
| "fle _ NInf = False"
| "fle PInf _ = False"

fun is_finite :: "fl \<Rightarrow> bool" where
  "is_finite (Fin a) = True"
| "is_finite _ = False"

text \<open>
  A pandas Series of doubles is a list; a DataFrame maps a column name to its Series
  (all columns of one frame have the same length; the row index is the position).
  Columns of text are outside the model.
\<close>

type_synonym series = "fl list"
type_synonym frame = "string \<rightharpoonup> series"

text \<open>The exceptions the methods catch.\<close>

datatype error = TypeError | KeyError | IndexError | ValueError | ZeroDivisionError

text \<open>The dictionary \<open>calculate_dcf_value\<close> returns, by its four keys.\<close>

record valuation =
  PV_of_FCF :: fl
  Terminal_Value :: fl
  PV_of_Terminal_Value :: fl
  Total_Value :: fl

text \<open>The Python values the methods return.\<close>

datatype pyval = PyNone | PyBool bool | PySeries series | PyFrame frame | PyDict valuation

text \<open>
  The object: \<open>__init__\<close> sets the five attributes to \<open>None\<close>. The two rates are
  Python floats (finite here), the number of years a Python int.
\<close>

record dcf =
  statements :: "frame option"
  projections :: "frame option"
  wacc :: "real option"
  terminal_growth :: "real option"
  projection_years :: "int option"

definition init :: dcf where
  "init = \<lparr>statements = None, projections = None, wacc = None,
           terminal_growth = None, projection_years = None\<rparr>"

text \<open>
  Subscripting an attribute that may be \<open>None\<close>: \<open>self.statements['Revenue']\<close>
  raises TypeError when the frame is \<open>None\<close> and KeyError when the column is absent.
\<close>

definition column :: "frame option \<Rightarrow> string \<Rightarrow> error + series" where
  "column fr name =
     (case fr of
        None \<Rightarrow> Inl TypeError
      | Some df \<Rightarrow> (case df name of None \<Rightarrow> Inl KeyError | Some xs \<Rightarrow> Inr xs))"

text \<open>\<open>Series.iloc[-1]\<close>: the last entry, IndexError on an empty Series.\<close>

definition iloc_last :: "series \<Rightarrow> error + fl" where
  "iloc_last xs = (if xs = [] then Inl IndexError else Inr (last xs))"

section \<open>load_data\<close>

definition required_columns :: "string list" where
  "required_columns =
     [''Revenue'', ''Operating_Expenses'', ''Depreciation'', ''Capex'',
      ''Change_Working_Capital'']"

definition missing_columns :: "frame \<Rightarrow> string list" where
  "missing_columns df = filter (\<lambda>col. df col = None) required_columns"

text \<open>
  The \<open>try\<close> block of \<open>load_data\<close>. What \<open>pd.read_csv(filepath)\<close> gives for the file
  is the parameter \<open>csv\<close>: an exception or a frame. The frame is assigned to
  \<open>self.statements\<close> before the columns are checked. The block's result is the
  exception it raised or the value it reached, with the object as it is then.
\<close>

definition load_data_try :: "dcf \<Rightarrow> error + frame \<Rightarrow> (error + unit) \<times> dcf" where
  "load_data_try s csv =
     (case csv of
        Inl e \<Rightarrow> (Inl e, s)
      | Inr df \<Rightarrow>
          (let s' = s\<lparr>statements := Some df\<rparr>
           in if missing_columns df \<noteq> [] then (Inl ValueError, s') else (Inr (), s')))"

definition load_data :: "dcf \<Rightarrow> error + frame \<Rightarrow> pyval \<times> dcf" where
  "load_data s csv =
     (case load_data_try s csv of
        (Inl e, s') \<Rightarrow> (PyBool False, s')
      | (Inr u, s') \<Rightarrow> (PyBool True, s'))"

section \<open>pandas and numpy operations\<close>

text \<open>
  \<open>Series.ffill()\<close>: a NaN cell takes the last value before it that is not NaN; the
  NaN cells at the head of the column stay.
\<close>

fun ffill_from :: "fl \<Rightarrow> series \<Rightarrow> series" where
  "ffill_from prev [] = []"
| "ffill_from prev (x # xs) =
     (if x = NaN then prev # ffill_from prev xs else x # ffill_from x xs)"

definition ffill :: "series \<Rightarrow> series" where
  "ffill xs = ffill_from NaN xs"

text \<open>
  \<open>Series.pct_change()\<close> with its defaults, as pandas before 3.0 computes it (the
  generation \<open>py_float\<close> below follows): the column is forward filled first
  (\<open>fill_method='pad'\<close>), then \<open>data / data.shift(1) - 1\<close>, which is NaN in the first row
  and \<open>x[t] / x[t-1] - 1\<close> after it.
\<close>

definition pct_change :: "series \<Rightarrow> series" where
  "pct_change xs =
     (let data = ffill xs
      in case data of
           [] \<Rightarrow> []
         | x # rest \<Rightarrow> NaN # map2 (\<lambda>prev cur. fsub (fdiv cur prev) (Fin 1)) data rest)"

text \<open>
  \<open>Series.mean()\<close> skips the NaN entries (\<open>skipna=True\<close>): the sum of the others over
  their number, NaN when there is none.
\<close>

definition mean :: "series \<Rightarrow> fl" where
  "mean xs =
     (let vs = filter (\<lambda>v. v \<noteq> NaN) xs
      in if vs = [] then NaN
         else fdiv (foldl fadd (Fin 0) vs) (Fin (real (length vs))))"

text \<open>\<open>np.prod\<close> of an array: the product from 1.\<close>

definition fprod :: "series \<Rightarrow> fl" where
  "fprod xs = foldl fmul (Fin 1) xs"

text \<open>
  \<open>np.linspace(start, stop, num)\<close> with \<open>endpoint=True\<close>, as numpy computes it:
  \<open>num < 0\<close> raises ValueError; otherwise \<open>y = arange(0, num) * step + start\<close> with
  \<open>step = (stop - start) / (num - 1)\<close> (for a zero step \<open>y / (num - 1) * delta\<close>; for
  \<open>num \<le> 1\<close> there is no step and \<open>y = arange(0, num) * delta + start\<close>), and
  the last entry is overwritten by \<open>stop\<close> only when \<open>num > 1\<close>.
\<close>

definition linspace :: "fl \<Rightarrow> fl \<Rightarrow> int \<Rightarrow> error + series" where
  "linspace start stop num =
     (if num < 0 then Inl ValueError
      else
        (let divisor = num - 1;
             delta = fsub stop start;
             y = map (\<lambda>i. Fin (real i)) [0..<nat num];
             y1 = (if 0 < divisor
                   then (let step = fdiv delta (Fin (real_of_int divisor))
                         in if step = Fin 0
                            then map (\<lambda>v. fmul (fdiv v (Fin (real_of_int divisor))) delta) y
                            else map (\<lambda>v. fmul v step) y)
                   else map (\<lambda>v. fmul v delta) y);
             y2 = map (\<lambda>v. fadd v start) y1
         in Inr (if 1 < num then y2[nat num - 1 := stop] else y2)))"

text \<open>
  Python's \<open>x ** n\<close> for a float and an int: a negative power of zero raises
  ZeroDivisionError.
\<close>

definition py_pow :: "real \<Rightarrow> int \<Rightarrow> error + real" where
  "py_pow x n =
     (if 0 \<le> n then Inr (x ^ nat n)
      else if x = 0 then Inl ZeroDivisionError
      else Inr (1 / x ^ nat (- n)))"

text \<open>
  A value that is a number or a Series: the builtin \<open>sum\<close> starts from the int 0 and
  adds the terms with \<open>+\<close>, which pandas applies entry by entry.
\<close>

datatype pynum = Scalar fl | Ser series

fun padd :: "pynum \<Rightarrow> pynum \<Rightarrow> pynum" where
  "padd (Scalar a) (Scalar b) = Scalar (fadd a b)"
| "padd (Scalar a) (Ser ys) = Ser (map (fadd a) ys)"
| "padd (Ser xs) (Scalar b) = Ser (map (\<lambda>x. fadd x b) xs)"
| "padd (Ser xs) (Ser ys) = Ser (map2 fadd xs ys)"

text \<open>
  \<open>float(v)\<close>: a Series converts only when it has exactly one entry, otherwise
  TypeError (\<open>cannot convert the series to float\<close>); this is pandas before 3.0, where
  the one-entry conversion still exists.
\<close>

fun py_float :: "pynum \<Rightarrow> error + fl" where
  "py_float (Scalar a) = Inr a"
| "py_float (Ser [x]) = Inr x"
| "py_float (Ser xs) = Inl TypeError"

section \<open>calculate_free_cash_flow\<close>

text \<open>\<open>self.statements[name] = xs\<close> and \<open>self.projections[name] = xs\<close>.\<close>

definition assign_statements :: "dcf \<Rightarrow> string \<Rightarrow> series \<Rightarrow> dcf" where
  "assign_statements s name xs =
     s\<lparr>statements := map_option (\<lambda>df. df(name \<mapsto> xs)) (statements s)\<rparr>"

definition assign_projections :: "dcf \<Rightarrow> string \<Rightarrow> series \<Rightarrow> dcf" where
  "assign_projections s name xs =
     s\<lparr>projections := map_option (\<lambda>df. df(name \<mapsto> xs)) (projections s)\<rparr>"

text \<open>The tax factor \<open>(1 - 0.21)\<close>.\<close>

definition after_tax :: fl where
  "after_tax = Fin (1 - 21 / 100)"

text \<open>
  The \<open>try\<close> block: three column assignments in order, each column read back from the
  frame, and the FCF column returned. A missing column raises KeyError after the
  earlier assignments are done.
\<close>

definition calculate_free_cash_flow_try :: "dcf \<Rightarrow> (error + pyval) \<times> dcf" where
  "calculate_free_cash_flow_try s =
     (case column (statements s) ''Revenue'' of Inl e \<Rightarrow> (Inl e, s) | Inr revenue \<Rightarrow>
      case column (statements s) ''Operating_Expenses'' of Inl e \<Rightarrow> (Inl e, s) | Inr opex \<Rightarrow>
      let s1 = assign_statements s ''EBIT'' (map2 fsub revenue opex) in
      case column (statements s1) ''EBIT'' of Inl e \<Rightarrow> (Inl e, s1) | Inr ebit \<Rightarrow>
      let s2 = assign_statements s1 ''NOPAT'' (map (\<lambda>x. fmul x after_tax) ebit) in
      case column (statements s2) ''NOPAT'' of Inl e \<Rightarrow> (Inl e, s2) | Inr nopat \<Rightarrow>
      case column (statements s2) ''Depreciation'' of Inl e \<Rightarrow> (Inl e, s2) | Inr depreciation \<Rightarrow>
      case column (statements s2) ''Capex'' of Inl e \<Rightarrow> (Inl e, s2) | Inr capex \<Rightarrow>
      case column (statements s2) ''Change_Working_Capital'' of Inl e \<Rightarrow> (Inl e, s2) | Inr cwc \<Rightarrow>
      let s3 = assign_statements s2 ''FCF''
                 (map2 fsub (map2 fsub (map2 fadd nopat depreciation) capex) cwc) in
      case column (statements s3) ''FCF'' of Inl e \<Rightarrow> (Inl e, s3) | Inr fcf \<Rightarrow>
      (Inr (PySeries fcf), s3))"

text \<open>The method: the \<open>except\<close> branch prints the error and returns \<open>None\<close>.\<close>

definition calculate_free_cash_flow :: "dcf \<Rightarrow> pyval \<times> dcf" where
  "calculate_free_cash_flow s =
     (case calculate_free_cash_flow_try s of
        (Inl e, s') \<Rightarrow> (PyNone, s')
      | (Inr v, s') \<Rightarrow> (v, s'))"

section \<open>project_financials\<close>

text \<open>
  The projected revenue column:
  \<open>[base_revenue * np.prod(1 + growth_rates[:i]) for i in range(1, n + 1)]\<close>.
\<close>

definition revenue_path :: "fl \<Rightarrow> series \<Rightarrow> int \<Rightarrow> series" where
  "revenue_path base_revenue growth_rates n =
     map (\<lambda>i. fmul base_revenue (fprod (map (fadd (Fin 1)) (take (nat i) growth_rates))))
       [1..n]"

text \<open>
  The growth rates: \<open>np.linspace(historical_growth, self.terminal_growth, n)\<close>. With
  \<open>terminal_growth\<close> still \<open>None\<close> numpy raises TypeError (after its check of \<open>num\<close>).
\<close>

definition growth_rates_of :: "fl \<Rightarrow> real option \<Rightarrow> int \<Rightarrow> error + series" where
  "growth_rates_of historical_growth tg n =
     (case tg of
        None \<Rightarrow> Inl (if n < 0 then ValueError else TypeError)
      | Some t \<Rightarrow> linspace historical_growth (Fin t) n)"

text \<open>
  The \<open>try\<close> block. \<open>self.projections\<close> is replaced by an empty frame before the growth
  rates are computed, so a later exception leaves it without the columns not yet
  assigned. The block ends without a \<open>return\<close>: its value is \<open>None\<close>.
\<close>

definition project_financials_try :: "dcf \<Rightarrow> (error + pyval) \<times> dcf" where
  "project_financials_try s =
     (case column (statements s) ''Revenue'' of Inl e \<Rightarrow> (Inl e, s) | Inr revenue \<Rightarrow>
      let historical_growth = mean (pct_change revenue) in
      case projection_years s of None \<Rightarrow> (Inl TypeError, s) | Some n \<Rightarrow>
      let s1 = s\<lparr>projections := Some Map.empty\<rparr> in
      case growth_rates_of historical_growth (terminal_growth s1) n of
        Inl e \<Rightarrow> (Inl e, s1) | Inr growth_rates \<Rightarrow>
      case iloc_last revenue of Inl e \<Rightarrow> (Inl e, s1) | Inr base_revenue \<Rightarrow>
      let s2 = assign_projections s1 ''Revenue'' (revenue_path base_revenue growth_rates n) in
      case column (statements s2) ''EBIT'' of Inl e \<Rightarrow> (Inl e, s2) | Inr ebit \<Rightarrow>
      let avg_margin = mean (map2 fdiv ebit revenue) in
      case column (projections s2) ''Revenue'' of Inl e \<Rightarrow> (Inl e, s2) | Inr prevenue \<Rightarrow>
      let s3 = assign_projections s2 ''EBIT'' (map (\<lambda>x. fmul x avg_margin) prevenue) in
      case column (projections s3) ''EBIT'' of Inl e \<Rightarrow> (Inl e, s3) | Inr pebit \<Rightarrow>
      let s4 = assign_projections s3 ''FCF'' (map (\<lambda>x. fmul x after_tax) pebit) in
      (Inr PyNone, s4))"

text \<open>The method: \<open>None\<close> from the \<open>except\<close> branch, and \<open>None\<close> from falling off the end.\<close>

definition project_financials :: "dcf \<Rightarrow> pyval \<times> dcf" where
  "project_financials s =
     (case project_financials_try s of
        (Inl e, s') \<Rightarrow> (PyNone, s')
      | (Inr v, s') \<Rightarrow> (v, s'))"

section \<open>calculate_dcf_value\<close>

text \<open>
  One term of the generator, \<open>self.projections['FCF'] / (1 + self.wacc) ** year\<close>: the
  whole FCF column divided by the discount factor of the year.
\<close>

definition discounted :: "dcf \<Rightarrow> int \<Rightarrow> error + pynum" where
  "discounted s year =
     (case column (projections s) ''FCF'' of Inl e \<Rightarrow> Inl e | Inr fcf \<Rightarrow>
      case wacc s of None \<Rightarrow> Inl TypeError | Some w \<Rightarrow>
      case py_pow (1 + w) year of Inl e \<Rightarrow> Inl e | Inr d \<Rightarrow>
      Inr (Ser (map (\<lambda>x. fdiv x (Fin d)) fcf)))"

text \<open>\<open>sum(... for year in years)\<close>: the running total over the years in order.\<close>

fun sum_discounted :: "dcf \<Rightarrow> pynum \<Rightarrow> int list \<Rightarrow> error + pynum" where
  "sum_discounted s acc [] = Inr acc"
| "sum_discounted s acc (year # years) =
     (case discounted s year of
        Inl e \<Rightarrow> Inl e
      | Inr t \<Rightarrow> sum_discounted s (padd acc t) years)"

text \<open>
  The \<open>try\<close> block. The range of the years is built first (TypeError when
  \<open>projection_years\<close> is \<open>None\<close>). The two divisions of the terminal value are numpy
  divisions. The dictionary converts the four values with \<open>float\<close>, in order. No
  attribute is assigned.
\<close>

definition calculate_dcf_value_try :: "dcf \<Rightarrow> error + pyval" where
  "calculate_dcf_value_try s =
     (case projection_years s of None \<Rightarrow> Inl TypeError | Some n \<Rightarrow>
      case sum_discounted s (Scalar (Fin 0)) [1..n] of Inl e \<Rightarrow> Inl e | Inr pv_fcf \<Rightarrow>
      case column (projections s) ''FCF'' of Inl e \<Rightarrow> Inl e | Inr fcf \<Rightarrow>
      case iloc_last fcf of Inl e \<Rightarrow> Inl e | Inr last_fcf \<Rightarrow>
      case terminal_growth s of None \<Rightarrow> Inl TypeError | Some tg \<Rightarrow>
      let terminal_fcf = fmul last_fcf (Fin (1 + tg)) in
      case wacc s of None \<Rightarrow> Inl TypeError | Some w \<Rightarrow>
      let terminal_value = fdiv terminal_fcf (Fin (w - tg)) in
      case py_pow (1 + w) n of Inl e \<Rightarrow> Inl e | Inr d \<Rightarrow>
      let pv_terminal = fdiv terminal_value (Fin d);
          total_value = padd pv_fcf (Scalar pv_terminal) in
      case py_float pv_fcf of Inl e \<Rightarrow> Inl e | Inr pv_float \<Rightarrow>
      case py_float total_value of Inl e \<Rightarrow> Inl e | Inr total_float \<Rightarrow>
      Inr (PyDict \<lparr>PV_of_FCF = pv_float, Terminal_Value = terminal_value,
                   PV_of_Terminal_Value = pv_terminal, Total_Value = total_float\<rparr>))"

definition calculate_dcf_value :: "dcf \<Rightarrow> pyval" where
  "calculate_dcf_value s =
     (case calculate_dcf_value_try s of Inl e \<Rightarrow> PyNone | Inr v \<Rightarrow> v)"

section \<open>test_run\<close>

text \<open>
  The driver, as the list of the stages it calls. What \<open>pd.read_csv\<close> gives for the
  test file is the parameter \<open>csv\<close>; whether \<open>create_visualizations\<close> (matplotlib)
  returns figures is the parameter \<open>figures_ok\<close>. The report is the last stage, so its
  outcome does not change the list. The value of \<open>project_financials\<close> is discarded and
  the valuation is called next.
\<close>

datatype stage = Load | FreeCashFlow | Projection | Valuation | Visualization | Report

definition test_run :: "error + frame \<Rightarrow> bool \<Rightarrow> stage list" where
  "test_run csv figures_ok =
     (case load_data init csv of (loaded, s0) \<Rightarrow>
      case loaded of
        PyBool True \<Rightarrow>
          (let s1 = s0\<lparr>wacc := Some (10 / 100), terminal_growth := Some (2 / 100),
                        projection_years := Some 5\<rparr> in
           case calculate_free_cash_flow s1 of (fcf, s2) \<Rightarrow>
           case fcf of
             PyNone \<Rightarrow> [Load, FreeCashFlow]
           | _ \<Rightarrow>
               (case project_financials s2 of (ignored, s3) \<Rightarrow>
                case calculate_dcf_value s3 of
                  PyNone \<Rightarrow> [Load, FreeCashFlow, Projection, Valuation]
                | _ \<Rightarrow>
                    if \<not> figures_ok
                    then [Load, FreeCashFlow, Projection, Valuation, Visualization]
                    else [Load, FreeCashFlow, Projection, Valuation, Visualization, Report]))
      | _ \<Rightarrow> [Load])"

section \<open>Quantities of the specification\<close>

text \<open>
  The cumulative growth factor of the specification, \<open>\<Prod>k=1..i. (1 + growthRates[k])\<close>,
  over a sequence of real growth rates.
\<close>

definition growth_product :: "real list \<Rightarrow> nat \<Rightarrow> real" where
  "growth_product gs i = prod_list (map (\<lambda>g. 1 + g) (take i gs))"

section \<open>Example inputs\<close>

text \<open>A two-year table with the five required columns, and the object after loading it.\<close>

definition example_table :: frame where
  "example_table =
     [''Revenue'' \<mapsto> [Fin 100, Fin 110],
      ''Operating_Expenses'' \<mapsto> [Fin 80, Fin 86],
      ''Depreciation'' \<mapsto> [Fin 5, Fin 5],
      ''Capex'' \<mapsto> [Fin 7, Fin 7],
      ''Change_Working_Capital'' \<mapsto> [Fin 2, Fin 2]]"

definition example_loaded :: dcf where
  "example_loaded = snd (load_data init (Inr example_table))"

text \<open>The loaded example with the three inputs set, and after the two next stages.\<close>

definition example_inputs :: "real \<Rightarrow> real \<Rightarrow> int \<Rightarrow> dcf" where
  "example_inputs w t n =
     example_loaded\<lparr>wacc := Some w, terminal_growth := Some t, projection_years := Some n\<rparr>"

definition example_projected :: "real \<Rightarrow> real \<Rightarrow> int \<Rightarrow> dcf" where
  "example_projected w t n =
     snd (project_financials (snd (calculate_free_cash_flow (example_inputs w t n))))"

text \<open>
  Tables with one record, with a zero revenue in the last record, and with the five
  headers and no record; and the object after loading a table, setting the inputs of
  \<open>test_run\<close> (with any number of years) and \<open>calculate_free_cash_flow\<close>.
\<close>

definition single_record_table :: frame where
  "single_record_table =
     [''Revenue'' \<mapsto> [Fin 100], ''Operating_Expenses'' \<mapsto> [Fin 80],
      ''Depreciation'' \<mapsto> [Fin 5], ''Capex'' \<mapsto> [Fin 7],
      ''Change_Working_Capital'' \<mapsto> [Fin 2]]"

definition zero_revenue_table :: frame where
  "zero_revenue_table =
     [''Revenue'' \<mapsto> [Fin 100, Fin 0], ''Operating_Expenses'' \<mapsto> [Fin 80, Fin 0],
      ''Depreciation'' \<mapsto> [Fin 5, Fin 5], ''Capex'' \<mapsto> [Fin 7, Fin 7],
      ''Change_Working_Capital'' \<mapsto> [Fin 2, Fin 2]]"

definition header_only_table :: frame where
  "header_only_table =
     [''Revenue'' \<mapsto> [], ''Operating_Expenses'' \<mapsto> [], ''Depreciation'' \<mapsto> [],
      ''Capex'' \<mapsto> [], ''Change_Working_Capital'' \<mapsto> []]"

definition prepared :: "frame \<Rightarrow> int \<Rightarrow> dcf" where
  "prepared table n =
     snd (calculate_free_cash_flow
       ((snd (load_data init (Inr table)))
          \<lparr>wacc := Some (1 / 10), terminal_growth := Some (1 / 50),
             projection_years := Some n\<rparr>))"

section \<open>Basic facts\<close>

lemma column_Some:
  "column (Some df) name = (case df name of None \<Rightarrow> Inl KeyError | Some xs \<Rightarrow> Inr xs)"
  by (simp add: column_def)

lemma assign_statements_eq:
  "statements s = Some df \<Longrightarrow>
   assign_statements s name xs = s\<lparr>statements := Some (df(name \<mapsto> xs))\<rparr>"
  by (simp add: assign_statements_def)

lemma example_loaded_eq:
  "example_loaded = init\<lparr>statements := Some example_table\<rparr>"
  by (simp add: example_loaded_def load_data_def load_data_try_def missing_columns_def
      required_columns_def example_table_def)

lemma load_data_ok:
  "missing_columns df = [] \<Longrightarrow> load_data s (Inr df) = (PyBool True, s\<lparr>statements := Some df\<rparr>)"
  by (simp add: load_data_def load_data_try_def)

section \<open>Facts about the valuation\<close>

lemma fadd_zero_left: "fadd (Fin 0) x = x"
  by (cases x) simp_all

lemma fadd_special_right: "\<not> is_finite y \<Longrightarrow> \<not> is_finite (fadd x y)"
  by (cases x; cases y) simp_all

lemma fdiv_special_left: "\<not> is_finite x \<Longrightarrow> \<not> is_finite (fdiv x (Fin d))"
  by (cases x) simp_all

lemma fdiv_zero_special: "\<not> is_finite (fdiv x (Fin 0))"
  by (cases x) (simp_all add: signed_inf_def)

lemma py_float_padd_Scalar:
  "py_float pv = Inr a \<Longrightarrow> py_float (padd pv (Scalar b)) = Inr (fadd a b)"
  by (cases pv rule: py_float.cases) simp_all

lemma dcf_value_result:
  assumes "calculate_dcf_value s = PyDict r"
  shows "\<exists>n fcf tg w d.
      projection_years s = Some n \<and> column (projections s) ''FCF'' = Inr fcf \<and> fcf \<noteq> [] \<and>
      terminal_growth s = Some tg \<and> wacc s = Some w \<and> py_pow (1 + w) n = Inr d \<and>
      Terminal_Value r = fdiv (fmul (last fcf) (Fin (1 + tg))) (Fin (w - tg)) \<and>
      PV_of_Terminal_Value r = fdiv (Terminal_Value r) (Fin d) \<and>
      Total_Value r = fadd (PV_of_FCF r) (PV_of_Terminal_Value r)"
  using assms
  by (auto simp: calculate_dcf_value_def calculate_dcf_value_try_def iloc_last_def Let_def
      py_float_padd_Scalar
      split: option.splits sum.splits if_splits)

lemma dcf_value_one_year:
  assumes "projection_years s = Some 1" "projections s = Some p" "p ''FCF'' = Some [f]"
    "wacc s = Some w" "terminal_growth s = Some t"
  shows "calculate_dcf_value s =
     PyDict \<lparr>PV_of_FCF = fdiv f (Fin (1 + w)),
             Terminal_Value = fdiv (fmul f (Fin (1 + t))) (Fin (w - t)),
             PV_of_Terminal_Value = fdiv (fdiv (fmul f (Fin (1 + t))) (Fin (w - t))) (Fin (1 + w)),
             Total_Value = fadd (fdiv f (Fin (1 + w)))
               (fdiv (fdiv (fmul f (Fin (1 + t))) (Fin (w - t))) (Fin (1 + w)))\<rparr>"
  using assms
  by (simp add: calculate_dcf_value_def calculate_dcf_value_try_def iloc_last_def Let_def
      discounted_def column_Some py_pow_def fadd_zero_left)

lemma sum_discounted_Ser:
  assumes "column (projections s) ''FCF'' = Inr fcf"
  shows "sum_discounted s (Ser xs) ys = Inr r \<Longrightarrow> length xs = length fcf \<Longrightarrow>
         \<exists>zs. r = Ser zs \<and> length zs = length fcf"
proof (induction ys arbitrary: xs)
  case Nil
  then show ?case by auto
next
  case (Cons y ys)
  then show ?case using assms
    by (auto simp: discounted_def split: sum.splits option.splits)
qed

lemma sum_discounted_shape:
  assumes "column (projections s) ''FCF'' = Inr fcf"
    and "sum_discounted s (Scalar a) (y # ys) = Inr r"
  shows "\<exists>zs. r = Ser zs \<and> length zs = length fcf"
  using assms sum_discounted_Ser [OF assms(1)]
  by (auto simp: discounted_def split: sum.splits option.splits)

lemma dcf_value_several_years:
  assumes "projection_years s = Some n" "1 \<le> n"
    and "column (projections s) ''FCF'' = Inr fcf" "length fcf \<noteq> 1"
  shows "calculate_dcf_value s = PyNone"
proof -
  from \<open>1 \<le> n\<close> have up: "[1..n] = 1 # [2..n]"
    by (simp add: upto_rec1)
  show ?thesis
  proof (cases "sum_discounted s (Scalar (Fin 0)) [1..n]")
    case (Inl e)
    then show ?thesis using assms(1)
      by (simp add: calculate_dcf_value_def calculate_dcf_value_try_def)
  next
    case (Inr pv)
    with up sum_discounted_shape [OF assms(3), of "Fin 0" 1 "[2..n]" pv]
    obtain zs where zs: "pv = Ser zs" "length zs = length fcf" by auto
    with assms(4) have "py_float pv = Inl TypeError"
      by (cases zs rule: remdups_adj.cases) auto
    then show ?thesis using assms(1) Inr
      by (simp add: calculate_dcf_value_def calculate_dcf_value_try_def Let_def
          split: option.splits sum.splits)
  qed
qed

lemmas model_defs = calculate_free_cash_flow_def calculate_free_cash_flow_try_def
  project_financials_def project_financials_try_def growth_rates_of_def
  column_def assign_statements_def assign_projections_def iloc_last_def
  example_inputs_def example_projected_def example_loaded_eq example_table_def init_def

lemmas num_defs = after_tax_def fsub_def mean_def pct_change_def ffill_def fprod_def linspace_def
  revenue_path_def signed_inf_def

lemma upt_lists: "[0..<1] = [0]" "[0..<2] = [0, 1]" "[0..<5] = [0, 1, 2, 3, 4]"
  by code_simp+

lemma upto_lists: "[1..(1::int)] = [1]" "[1..(2::int)] = [1, 2]" "[1..(5::int)] = [1, 2, 3, 4, 5]"
  by code_simp+

lemma example_fcf_1:
  "column (projections (example_projected w t 1)) ''FCF'' = Inr [Fin (19987 / 1000)]"
  by (simp add: model_defs num_defs Let_def upt_lists upto_lists)

lemma example_fcf_2:
  "column (projections (example_projected (1 / 10) (1 / 50) 2)) ''FCF'' =
     Inr [Fin (19987 / 1000), Fin (1019337 / 50000)]"
  by (simp add: model_defs num_defs Let_def upt_lists upto_lists)

lemma example_fcf_5:
  "column (projections (example_projected (1 / 10) (1 / 50) 5)) ''FCF'' =
     Inr [Fin (19987 / 1000), Fin (539649 / 25000), Fin (28601397 / 1250000),
          Fin (371818161 / 15625000), Fin (18962726211 / 781250000)]"
  by (simp add: model_defs num_defs Let_def upt_lists upto_lists)

lemma example_projected_inputs:
  "wacc (example_projected w t n) = Some w"
  "terminal_growth (example_projected w t n) = Some t"
  "projection_years (example_projected w t n) = Some n"
  by (simp_all add: model_defs Let_def split: sum.splits option.splits)

lemma example_projections_1:
  "\<exists>p. projections (example_projected w t 1) = Some p \<and> p ''FCF'' = Some [Fin (19987 / 1000)]"
  using example_fcf_1 [of w t]
  by (auto simp: column_def split: option.splits)

section \<open>Facts about the growth rates\<close>

lemma linspace_one: "linspace (Fin h) (Fin t) 1 = Inr [Fin h]"
  by (simp add: linspace_def fsub_def)

lemma linspace_real:
  assumes "2 \<le> n"
  shows "linspace (Fin h) (Fin t) n =
     Inr (map (\<lambda>i. Fin (h + real i * ((t - h) / real_of_int (n - 1)))) [0..<nat n])"
proof -
  let ?c = "(t - h) / real_of_int (n - 1)"
  let ?y = "map (\<lambda>i. Fin (real i)) [0..<nat n]"
  let ?y1 = "if fdiv (fsub (Fin t) (Fin h)) (Fin (real_of_int (n - 1))) = Fin 0
             then map (\<lambda>v. fmul (fdiv v (Fin (real_of_int (n - 1)))) (fsub (Fin t) (Fin h))) ?y
             else map (\<lambda>v. fmul v (fdiv (fsub (Fin t) (Fin h)) (Fin (real_of_int (n - 1))))) ?y"
  let ?y2 = "map (\<lambda>v. fadd v (Fin h)) ?y1"
  from assms have pos: "0 < real_of_int (n - 1)" by simp
  have y2: "?y2 = map (\<lambda>i. Fin (h + real i * ?c)) [0..<nat n]"
    using pos by (auto simp: fsub_def)
  have unfold: "linspace (Fin h) (Fin t) n = Inr (?y2[nat n - 1 := Fin t])"
    using assms by (simp add: linspace_def Let_def)
  have last_eq: "Fin t = Fin (h + real (nat n - 1) * ?c)"
  proof -
    have "real (nat n - 1) = real_of_int (n - 1)" using assms by simp
    then show ?thesis using pos by simp
  qed
  have "(map (\<lambda>i. Fin (h + real i * ?c)) [0..<nat n])[nat n - 1 := Fin t] =
        map (\<lambda>i. Fin (h + real i * ?c)) [0..<nat n]"
  proof (rule nth_equalityI)
    show "length ((map (\<lambda>i. Fin (h + real i * ?c)) [0..<nat n])[nat n - 1 := Fin t]) =
          length (map (\<lambda>i. Fin (h + real i * ?c)) [0..<nat n])" by simp
  next
    fix i
    assume "i < length ((map (\<lambda>i. Fin (h + real i * ?c)) [0..<nat n])[nat n - 1 := Fin t])"
    then have i: "i < nat n" by simp
    show "(map (\<lambda>i. Fin (h + real i * ?c)) [0..<nat n])[nat n - 1 := Fin t] ! i =
          map (\<lambda>i. Fin (h + real i * ?c)) [0..<nat n] ! i"
    proof (cases "i = nat n - 1")
      case True
      with i last_eq show ?thesis by simp
    next
      case False
      with i show ?thesis by simp
    qed
  qed
  with unfold y2 show ?thesis by simp
qed

section \<open>Facts about the projected revenue\<close>

lemma length_revenue_path: "length (revenue_path b g n) = nat n"
  by (simp add: revenue_path_def)

lemma revenue_path_nth:
  "i < nat n \<Longrightarrow>
   revenue_path b g n ! i = fmul b (fprod (map (fadd (Fin 1)) (take (Suc i) g)))"
  by (simp add: revenue_path_def nth_upto nat_add_distrib)

lemma foldl_fmul_add_one:
  "foldl fmul (Fin a) (map (fadd (Fin 1)) (map Fin xs)) =
     Fin (a * prod_list (map (\<lambda>g. 1 + g) xs))"
  by (induction xs arbitrary: a) (simp_all add: mult.assoc)

lemma revenue_path_nth_real:
  "i < nat n \<Longrightarrow>
   revenue_path (Fin b) (map Fin gs) n ! i =
     Fin (b * prod_list (map (\<lambda>g. 1 + g) (take (Suc i) gs)))"
  by (simp add: revenue_path_nth fprod_def take_map foldl_fmul_add_one del: take_Suc map_map)

lemma prod_list_positive: "(\<forall>x \<in> set xs. (0::real) < x) \<Longrightarrow> 0 < prod_list xs"
  by (induction xs) simp_all

lemma growth_product_Suc:
  "i < length gs \<Longrightarrow> growth_product gs (Suc i) = growth_product gs i * (1 + gs ! i)"
  by (simp add: growth_product_def take_Suc_conv_app_nth)

lemma chain_nth:
  "i \<le> length gs \<Longrightarrow>
   (Fin b # revenue_path (Fin b) (map Fin gs) (int (length gs))) ! i =
     Fin (b * growth_product gs i)"
  by (cases i) (simp_all add: revenue_path_nth_real growth_product_def)

lemma increasing_imp_positive:
  assumes b: "0 < b"
    and inc: "\<forall>i < length gs. b * growth_product gs i < b * growth_product gs (Suc i)"
  shows "i \<le> length gs \<Longrightarrow> 0 < growth_product gs i \<and> (\<forall>k < i. 0 < gs ! k)"
proof (induction i)
  case 0
  show ?case by (simp add: growth_product_def)
next
  case (Suc i)
  then have i: "i < length gs" and p: "0 < growth_product gs i"
    and k: "\<forall>k < i. 0 < gs ! k" by simp_all
  from inc i b have "growth_product gs i < growth_product gs i * (1 + gs ! i)"
    by (simp add: growth_product_Suc)
  with p have g: "0 < gs ! i"
    by (simp add: mult_less_cancel_left_pos [of "growth_product gs i" 1 "1 + gs ! i", simplified])
  with p i have "0 < growth_product gs (Suc i)"
    by (simp add: growth_product_Suc)
  moreover have "\<forall>k < Suc i. 0 < gs ! k"
    using k g by (simp add: less_Suc_eq)
  ultimately show ?case by simp
qed

lemma positive_imp_increasing:
  assumes b: "0 < b" and pos: "\<forall>g \<in> set gs. 0 < g"
  shows "i < length gs \<Longrightarrow> b * growth_product gs i < b * growth_product gs (Suc i)"
proof -
  assume i: "i < length gs"
  have "\<forall>x \<in> set (map (\<lambda>g. 1 + g) (take i gs)). 0 < x"
  proof
    fix x assume "x \<in> set (map (\<lambda>g. 1 + g) (take i gs))"
    then obtain g where g: "g \<in> set (take i gs)" "x = 1 + g" by auto
    from g(1) have "g \<in> set gs" by (rule in_set_takeD)
    with pos g(2) show "0 < x" by (simp add: add_pos_pos)
  qed
  then have p: "0 < growth_product gs i"
    unfolding growth_product_def by (rule prod_list_positive)
  from pos i have "0 < gs ! i" by simp
  with p b i show ?thesis
    by (simp add: growth_product_Suc)
qed

lemma fmul_one_left: "fmul (Fin 1) x = x"
  by (cases x) (simp_all add: signed_inf_def)

lemma revenue_path_first:
  assumes "g \<noteq> []" "1 \<le> n"
  shows "revenue_path base g n ! 0 = fmul base (fadd (Fin 1) (g ! 0))"
proof -
  from assms(2) have "0 < nat n" by simp
  then have "revenue_path base g n ! 0 = fmul base (fprod (map (fadd (Fin 1)) (take (Suc 0) g)))"
    by (rule revenue_path_nth)
  moreover have "take (Suc 0) g = [g ! 0]"
    using assms(1) by (cases g) simp_all
  ultimately show ?thesis
    by (simp add: fprod_def fmul_one_left)
qed

section \<open>Facts about the projection\<close>

lemma linspace_length: "0 \<le> n \<Longrightarrow> \<exists>g. linspace a b n = Inr g \<and> length g = nat n"
  by (simp add: linspace_def Let_def)

lemma growth_rates_length:
  "0 \<le> n \<Longrightarrow> \<exists>g. growth_rates_of a (Some t) n = Inr g \<and> length g = nat n"
  by (simp add: growth_rates_of_def linspace_length)

lemma project_financials_run:
  assumes "statements s = Some df" "df ''Revenue'' = Some revenue" "revenue \<noteq> []"
    "df ''EBIT'' = Some ebit" "projection_years s = Some n" "terminal_growth s = Some t"
    "growth_rates_of (mean (pct_change revenue)) (Some t) n = Inr g"
  shows "project_financials_try s =
     (Inr PyNone,
      s\<lparr>projections := Some
         [''Revenue'' \<mapsto> revenue_path (last revenue) g n,
          ''EBIT'' \<mapsto> map (\<lambda>x. fmul x (mean (map2 fdiv ebit revenue)))
                      (revenue_path (last revenue) g n),
          ''FCF'' \<mapsto> map (\<lambda>x. fmul x after_tax)
                     (map (\<lambda>x. fmul x (mean (map2 fdiv ebit revenue)))
                        (revenue_path (last revenue) g n))]\<rparr>)"
  using assms
  by (simp add: project_financials_try_def column_Some iloc_last_def Let_def
      assign_projections_def)

lemma project_financials_no_records:
  assumes "statements s = Some df" "df ''Revenue'' = Some []"
    "projection_years s = Some n" "0 \<le> n" "terminal_growth s = Some t"
  shows "project_financials_try s = (Inl IndexError, s\<lparr>projections := Some Map.empty\<rparr>)"
proof -
  from growth_rates_length [OF assms(4)] obtain g where
    "growth_rates_of (mean (pct_change [])) (Some t) n = Inr g" by blast
  with assms show ?thesis
    by (simp add: project_financials_try_def column_Some iloc_last_def Let_def)
qed

lemma foldl_fadd_Fin: "foldl fadd (Fin a) (map Fin xs) = Fin (a + sum_list xs)"
  by (induction xs arbitrary: a) (simp_all add: add.assoc)

lemma mean_Fin:
  assumes "xs \<noteq> []"
  shows "mean (map Fin xs) = Fin (sum_list xs / real (length xs))"
proof -
  have "filter (\<lambda>v. v \<noteq> NaN) (map Fin xs) = map Fin xs"
    by (induction xs) simp_all
  with assms show ?thesis
    by (simp add: mean_def foldl_fadd_Fin)
qed

lemma mean_NaN_Cons: "mean (NaN # xs) = mean xs"
  by (simp add: mean_def)

lemma pct_pairs_Fin:
  "\<forall>p \<in> set ps. p \<noteq> 0 \<Longrightarrow>
   map2 (\<lambda>prev cur. fsub (fdiv cur prev) (Fin 1)) (map Fin ps) (map Fin cs) =
     map Fin (map2 (\<lambda>p c. c / p - 1) ps cs)"
proof (induction ps arbitrary: cs)
  case Nil
  show ?case by simp
next
  case (Cons p ps)
  then show ?case by (cases cs) (simp_all add: fsub_def)
qed

lemma ffill_from_Fin: "ffill_from prev (map Fin xs) = map Fin xs"
  by (induction xs arbitrary: prev) simp_all

lemma pct_change_single: "mean (pct_change [r]) = NaN"
  by (simp add: pct_change_def ffill_def mean_def)

lemma pct_change_Fin:
  assumes "\<forall>p \<in> set (r # rs'). p \<noteq> 0"
  shows "pct_change (map Fin (r # rs')) = NaN # map Fin (map2 (\<lambda>p c. c / p - 1) (r # rs') rs')"
proof -
  have "pct_change (map Fin (r # rs')) =
        NaN # map2 (\<lambda>prev cur. fsub (fdiv cur prev) (Fin 1)) (map Fin (r # rs')) (map Fin rs')"
    by (simp add: pct_change_def ffill_def ffill_from_Fin [of NaN "r # rs'", simplified])
  then show ?thesis
    by (simp only: pct_pairs_Fin [OF assms])
qed

lemma margins_Fin:
  "\<forall>r \<in> set rs. r \<noteq> 0 \<Longrightarrow>
   map2 fdiv (map Fin es) (map Fin rs) = map Fin (map2 (\<lambda>e r. e / r) es rs)"
proof (induction es arbitrary: rs)
  case Nil
  show ?case by simp
next
  case (Cons e es)
  then show ?case by (cases rs) simp_all
qed

lemma historical_growth_Fin:
  assumes "\<forall>r \<in> set rs. r \<noteq> 0" "2 \<le> length rs"
  shows "mean (pct_change (map Fin rs)) =
     Fin (sum_list (map2 (\<lambda>p c. c / p - 1) rs (tl rs)) / real (length rs - 1))"
proof -
  from assms(2) obtain r rs' where rs: "rs = r # rs'" "rs' \<noteq> []"
    by (cases rs rule: remdups_adj.cases) auto
  then have ne: "map2 (\<lambda>p c. c / p - 1) (r # rs') rs' \<noteq> []"
    by (cases rs') simp_all
  have len: "length (map2 (\<lambda>p c. c / p - 1) (r # rs') rs') = length rs'"
    by simp
  from assms(1) rs(1) have nz: "\<forall>p \<in> set (r # rs'). p \<noteq> 0" by simp
  show ?thesis
    unfolding rs(1) pct_change_Fin [OF nz] mean_NaN_Cons mean_Fin [OF ne] len
    by simp
qed

lemma avg_margin_Fin:
  assumes "\<forall>r \<in> set rs. r \<noteq> 0" "rs \<noteq> []" "length es = length rs"
  shows "mean (map2 fdiv (map Fin es) (map Fin rs)) =
     Fin (sum_list (map2 (\<lambda>e r. e / r) es rs) / real (length rs))"
proof -
  from assms(2,3) have ne: "map2 (\<lambda>e r. e / r) es rs \<noteq> []"
    by (cases es; cases rs) simp_all
  have len: "length (map2 (\<lambda>e r. e / r) es rs) = length rs"
    using assms(3) by simp
  show ?thesis
    unfolding margins_Fin [OF assms(1)] mean_Fin [OF ne] len by simp
qed

lemma growth_rates_Fin:
  assumes "1 \<le> n"
  shows "\<exists>gs. growth_rates_of (Fin h) (Some t) n = Inr (map Fin gs)"
proof (cases "n = 1")
  case True
  have "growth_rates_of (Fin h) (Some t) 1 = Inr (map Fin [h])"
    by (simp add: growth_rates_of_def linspace_one)
  with True show ?thesis by blast
next
  case False
  with assms have "2 \<le> n" by simp
  then have "growth_rates_of (Fin h) (Some t) n =
     Inr (map Fin (map (\<lambda>i. h + real i * ((t - h) / real_of_int (n - 1))) [0..<nat n]))"
    by (simp add: growth_rates_of_def linspace_real)
  then show ?thesis by blast
qed

lemma fmul_NaN_right: "fmul x NaN = NaN"
  by (cases x) simp_all

lemma foldl_fmul_NaN: "foldl fmul NaN xs = NaN"
  by (induction xs) simp_all

lemma linspace_NaN_first:
  assumes "1 \<le> n"
  shows "\<exists>g'. linspace NaN (Fin t) n = Inr (NaN # g')"
proof (cases "n = 1")
  case True
  then show ?thesis by (simp add: linspace_def fsub_def)
next
  case False
  with assms have n: "2 \<le> n" by simp
  then have "nat n = Suc (Suc (nat n - 2))" by arith
  then obtain k where k: "nat n = Suc (Suc k)" ..
  have "[0..<nat n] = 0 # [Suc 0..<nat n]"
    using k by (simp add: upt_conv_Cons)
  with n k show ?thesis
    by (simp add: linspace_def fsub_def Let_def)
qed

lemma revenue_path_NaN: "x \<in> set (revenue_path b (NaN # g') n) \<Longrightarrow> x = NaN"
proof -
  assume "x \<in> set (revenue_path b (NaN # g') n)"
  then obtain i where i: "i \<in> set [1..n]"
    and x: "x = fmul b (fprod (map (fadd (Fin 1)) (take (nat i) (NaN # g'))))"
    by (auto simp: revenue_path_def)
  from i have "0 < nat i" by simp
  then obtain j where "nat i = Suc j" by (cases "nat i") simp_all
  with x show ?thesis
    by (simp add: fprod_def foldl_fmul_NaN fmul_NaN_right)
qed

lemmas prepared_defs = prepared_def load_data_def load_data_try_def missing_columns_def
  required_columns_def calculate_free_cash_flow_def calculate_free_cash_flow_try_def
  column_def assign_statements_def init_def after_tax_def fsub_def

lemma prepared_inputs:
  "projection_years (prepared table n) = Some n"
  "terminal_growth (prepared table n) = Some (1 / 50)"
  "wacc (prepared table n) = Some (1 / 10)"
  "projections (prepared table n) = None"
  by (simp_all add: prepared_defs Let_def split: sum.splits option.splits)

lemma prepared_single:
  "\<exists>df. statements (prepared single_record_table n) = Some df \<and>
        df ''Revenue'' = Some [Fin 100] \<and> df ''EBIT'' = Some [Fin 20]"
  by (simp add: prepared_defs single_record_table_def)

lemma prepared_zero:
  "\<exists>df. statements (prepared zero_revenue_table n) = Some df \<and>
        df ''Revenue'' = Some [Fin 100, Fin 0] \<and> df ''EBIT'' = Some [Fin 20, Fin 0]"
  by (simp add: prepared_defs zero_revenue_table_def)

lemma prepared_header:
  "\<exists>df. statements (prepared header_only_table n) = Some df \<and>
        df ''Revenue'' = Some [] \<and> df ''EBIT'' = Some []"
  by (simp add: prepared_defs header_only_table_def)

lemma prepared_example:
  "\<exists>df. statements (prepared example_table n) = Some df \<and>
        df ''Revenue'' = Some [Fin 100, Fin 110] \<and> df ''EBIT'' = Some [Fin 20, Fin 24]"
  by (simp add: prepared_defs example_table_def)

lemma all_NaN_2: "length xs = 2 \<Longrightarrow> \<forall>x \<in> set xs. x = NaN \<Longrightarrow> xs = [NaN, NaN]"
  by (cases xs rule: remdups_adj.cases) auto

lemma example_growth_rates:
  "growth_rates_of (mean (pct_change [Fin 100, Fin 110])) (Some (1 / 50)) 2 =
     Inr [Fin (1 / 10), Fin (1 / 50)]"
  by (simp add: growth_rates_of_def num_defs Let_def upt_lists)

section \<open>Properties of load_data\<close>

text \<open>
  C10. When the file parses as a table that lacks one or more of the five required
  columns, \<open>load_data\<close> returns \<open>False\<close> and the object's \<open>statements\<close> attribute holds
  the loaded, invalid table: the failed load is not atomic.
\<close>

theorem load_data_missing_not_atomic:
  assumes "missing_columns df \<noteq> []"
  shows "load_data s (Inr df) = (PyBool False, s\<lparr>statements := Some df\<rparr>)"
  using assms by (simp add: load_data_def load_data_try_def)

theorem load_data_missing_not_atomic_witness:
  "missing_columns [''Revenue'' \<mapsto> [Fin 1]] \<noteq> [] \<and>
   fst (load_data init (Inr [''Revenue'' \<mapsto> [Fin 1]])) = PyBool False \<and>
   statements (snd (load_data init (Inr [''Revenue'' \<mapsto> [Fin 1]])))
     = Some [''Revenue'' \<mapsto> [Fin 1]] \<and>
   statements init = None"
proof -
  have m: "missing_columns [''Revenue'' \<mapsto> [Fin 1]] \<noteq> []"
    by (simp add: missing_columns_def required_columns_def)
  show ?thesis
    using m load_data_missing_not_atomic [OF m, of init]
    by (simp add: init_def)
qed

section \<open>Properties of calculate_free_cash_flow\<close>

text \<open>
  C2 (as amended). For every loaded table (the five required columns are present, all
  of the table's length), \<open>calculate_free_cash_flow\<close> raises nothing, leaves in
  \<open>self.statements\<close> the table augmented with the columns EBIT, NOPAT and FCF, where for
  every row \<open>EBIT = Revenue - Operating_Expenses\<close>, \<open>NOPAT = EBIT * (1 - 0.21)\<close> and
  \<open>FCF = NOPAT + Depreciation - Capex - Change_Working_Capital\<close>, and returns the FCF
  column alone.
\<close>

theorem calculate_free_cash_flow_rows:
  assumes st: "statements s = Some df"
    and cols: "df ''Revenue'' = Some revenue" "df ''Operating_Expenses'' = Some opex"
      "df ''Depreciation'' = Some depreciation" "df ''Capex'' = Some capex"
      "df ''Change_Working_Capital'' = Some cwc"
    and len: "length opex = length revenue" "length depreciation = length revenue"
      "length capex = length revenue" "length cwc = length revenue"
  shows "\<exists>ebit nopat fcf.
      calculate_free_cash_flow s =
        (PySeries fcf,
         s\<lparr>statements := Some (df(''EBIT'' \<mapsto> ebit, ''NOPAT'' \<mapsto> nopat, ''FCF'' \<mapsto> fcf))\<rparr>) \<and>
      length ebit = length revenue \<and> length nopat = length revenue \<and>
      length fcf = length revenue \<and>
      (\<forall>i < length revenue.
         ebit ! i = fsub (revenue ! i) (opex ! i) \<and>
         nopat ! i = fmul (ebit ! i) (Fin (1 - 21 / 100)) \<and>
         fcf ! i = fsub (fsub (fadd (nopat ! i) (depreciation ! i)) (capex ! i)) (cwc ! i))"
proof -
  let ?ebit = "map2 fsub revenue opex"
  let ?nopat = "map (\<lambda>x. fmul x after_tax) ?ebit"
  let ?fcf = "map2 fsub (map2 fsub (map2 fadd ?nopat depreciation) capex) cwc"
  have run: "calculate_free_cash_flow s =
        (PySeries ?fcf,
         s\<lparr>statements := Some (df(''EBIT'' \<mapsto> ?ebit, ''NOPAT'' \<mapsto> ?nopat, ''FCF'' \<mapsto> ?fcf))\<rparr>)"
    using st cols
    by (simp add: calculate_free_cash_flow_def calculate_free_cash_flow_try_def
        column_Some assign_statements_eq)
  have rows: "\<forall>i < length revenue.
         ?ebit ! i = fsub (revenue ! i) (opex ! i) \<and>
         ?nopat ! i = fmul (?ebit ! i) (Fin (1 - 21 / 100)) \<and>
         ?fcf ! i = fsub (fsub (fadd (?nopat ! i) (depreciation ! i)) (capex ! i)) (cwc ! i)"
    using len by (simp add: after_tax_def)
  have lens: "length ?ebit = length revenue" "length ?nopat = length revenue"
    "length ?fcf = length revenue"
    using len by simp_all
  show ?thesis
    using run rows lens by blast
qed

theorem calculate_free_cash_flow_rows_witness:
  "statements example_loaded = Some example_table \<and>
   example_table ''Revenue'' = Some [Fin 100, Fin 110] \<and>
   example_table ''Operating_Expenses'' = Some [Fin 80, Fin 86] \<and>
   example_table ''Depreciation'' = Some [Fin 5, Fin 5] \<and>
   example_table ''Capex'' = Some [Fin 7, Fin 7] \<and>
   example_table ''Change_Working_Capital'' = Some [Fin 2, Fin 2] \<and>
   (\<exists>ebit nopat fcf.
      calculate_free_cash_flow example_loaded =
        (PySeries fcf,
         example_loaded\<lparr>statements :=
           Some (example_table(''EBIT'' \<mapsto> ebit, ''NOPAT'' \<mapsto> nopat, ''FCF'' \<mapsto> fcf))\<rparr>) \<and>
      length ebit = 2 \<and> length nopat = 2 \<and> length fcf = 2 \<and>
      ebit ! 0 = Fin 20 \<and> nopat ! 0 = Fin (79 / 5) \<and> fcf ! 0 = Fin (59 / 5) \<and>
      ebit ! 1 = Fin 24 \<and> nopat ! 1 = Fin (474 / 25) \<and> fcf ! 1 = Fin (374 / 25))"
proof -
  have st: "statements example_loaded = Some example_table"
    by (simp add: example_loaded_eq)
  have c1: "example_table ''Revenue'' = Some [Fin 100, Fin 110]"
    and c2: "example_table ''Operating_Expenses'' = Some [Fin 80, Fin 86]"
    and c3: "example_table ''Depreciation'' = Some [Fin 5, Fin 5]"
    and c4: "example_table ''Capex'' = Some [Fin 7, Fin 7]"
    and c5: "example_table ''Change_Working_Capital'' = Some [Fin 2, Fin 2]"
    by (simp_all add: example_table_def)
  from calculate_free_cash_flow_rows [OF st c1 c2 c3 c4 c5]
  obtain ebit nopat fcf where
    run: "calculate_free_cash_flow example_loaded =
        (PySeries fcf,
         example_loaded\<lparr>statements :=
           Some (example_table(''EBIT'' \<mapsto> ebit, ''NOPAT'' \<mapsto> nopat, ''FCF'' \<mapsto> fcf))\<rparr>)"
    and lens: "length ebit = 2" "length nopat = 2" "length fcf = 2"
    and rows: "\<forall>i < 2.
         ebit ! i = fsub ([Fin 100, Fin 110] ! i) ([Fin 80, Fin 86] ! i) \<and>
         nopat ! i = fmul (ebit ! i) (Fin (1 - 21 / 100)) \<and>
         fcf ! i = fsub (fsub (fadd (nopat ! i) ([Fin 5, Fin 5] ! i)) ([Fin 7, Fin 7] ! i))
                     ([Fin 2, Fin 2] ! i)"
    by auto
  have r0: "ebit ! 0 = Fin 20 \<and> nopat ! 0 = Fin (79 / 5) \<and> fcf ! 0 = Fin (59 / 5)"
    using rows [rule_format, of 0] by (simp add: fsub_def)
  have r1: "ebit ! 1 = Fin 24 \<and> nopat ! 1 = Fin (474 / 25) \<and> fcf ! 1 = Fin (374 / 25)"
    using rows [rule_format, of 1] by (simp add: fsub_def)
  show ?thesis
    using st c1 c2 c3 c4 c5 run lens r0 r1 by blast
qed

text \<open>
  C2 as stated fails in its last part: the value returned is the FCF column (a Series
  of two numbers for the example table), not the augmented table, which stays in the
  object.
\<close>

theorem calculate_free_cash_flow_returns_column:
  "fst (calculate_free_cash_flow example_loaded) = PySeries [Fin (59 / 5), Fin (374 / 25)] \<and>
   fst (calculate_free_cash_flow example_loaded) \<noteq>
     PyFrame (the (statements (snd (calculate_free_cash_flow example_loaded))))"
proof -
  have "fst (calculate_free_cash_flow example_loaded) = PySeries [Fin (59 / 5), Fin (374 / 25)]"
    by (simp add: calculate_free_cash_flow_def calculate_free_cash_flow_try_def
        example_loaded_eq example_table_def init_def column_Some assign_statements_eq
        after_tax_def fsub_def)
  then show ?thesis by simp
qed

section \<open>Properties of calculate_dcf_value\<close>

text \<open>
  C1. The claim: for a projections table of N years \<open>calculate_dcf_value\<close> returns the
  four numbers \<open>PV_FCF = \<Sum> FCF[year] / (1 + WACC)^year\<close>, the terminal value, its present
  value and their total. The code divides the whole FCF column by each year's factor,
  so the sum is a Series of N entries, and \<open>float\<close> of it raises TypeError when N is
  not 1. For the example table projected over two years (WACC 0.10, terminal growth
  0.02) the \<open>try\<close> block raises TypeError and the method returns \<open>None\<close>.
\<close>

theorem calculate_dcf_value_two_years:
  "column (projections (example_projected (1 / 10) (1 / 50) 2)) ''FCF'' =
     Inr [Fin (19987 / 1000), Fin (1019337 / 50000)] \<and>
   calculate_dcf_value_try (example_projected (1 / 10) (1 / 50) 2) = Inl TypeError \<and>
   calculate_dcf_value (example_projected (1 / 10) (1 / 50) 2) = PyNone"
proof -
  have c: "column (projections (example_projected (1 / 10) (1 / 50) 2)) ''FCF'' =
     Inr [Fin (19987 / 1000), Fin (1019337 / 50000)]"
    by (rule example_fcf_2)
  have t: "calculate_dcf_value_try (example_projected (1 / 10) (1 / 50) 2) = Inl TypeError"
    by (simp add: calculate_dcf_value_try_def example_projected_inputs c upto_lists
        discounted_def py_pow_def iloc_last_def Let_def)
  show ?thesis using c t by (simp add: calculate_dcf_value_def)
qed

text \<open>
  C8. The claim: the total is the sum of the two present values, and with every
  projected FCF positive, WACC in (0,1) and WACC above the terminal growth rate the
  four returned values are positive. With the inputs of \<open>test_run\<close> (WACC 0.10,
  terminal growth 0.02, five years) every projected FCF of the example table is
  positive, and no value is returned: the method returns \<open>None\<close> and \<open>test_run\<close> stops
  after the valuation. With one year instead of five the four values are returned,
  positive, the total being the sum of the two present values.
\<close>

theorem calculate_dcf_value_test_inputs:
  "column (projections (example_projected (1 / 10) (1 / 50) 5)) ''FCF'' =
     Inr [Fin (19987 / 1000), Fin (539649 / 25000), Fin (28601397 / 1250000),
          Fin (371818161 / 15625000), Fin (18962726211 / 781250000)] \<and>
   calculate_dcf_value (example_projected (1 / 10) (1 / 50) 5) = PyNone \<and>
   test_run (Inr example_table) True = [Load, FreeCashFlow, Projection, Valuation] \<and>
   calculate_dcf_value (example_projected (1 / 10) (1 / 50) 1) =
     PyDict \<lparr>PV_of_FCF = Fin (1817 / 100), Terminal_Value = Fin (1019337 / 4000),
             PV_of_Terminal_Value = Fin (92667 / 400), Total_Value = Fin (19987 / 80)\<rparr>"
proof -
  obtain p where p: "projections (example_projected (1 / 10) (1 / 50) 1) = Some p"
    "p ''FCF'' = Some [Fin (19987 / 1000)]"
    using example_projections_1 by blast
  have one: "calculate_dcf_value (example_projected (1 / 10) (1 / 50) 1) =
     PyDict \<lparr>PV_of_FCF = Fin (1817 / 100), Terminal_Value = Fin (1019337 / 4000),
             PV_of_Terminal_Value = Fin (92667 / 400), Total_Value = Fin (19987 / 80)\<rparr>"
    using dcf_value_one_year [OF example_projected_inputs(3) p example_projected_inputs(1,2)]
    by simp
  have c: "column (projections (example_projected (1 / 10) (1 / 50) 5)) ''FCF'' =
     Inr [Fin (19987 / 1000), Fin (539649 / 25000), Fin (28601397 / 1250000),
          Fin (371818161 / 15625000), Fin (18962726211 / 781250000)]"
    by (rule example_fcf_5)
  have n: "calculate_dcf_value (example_projected (1 / 10) (1 / 50) 5) = PyNone"
    by (rule dcf_value_several_years [OF example_projected_inputs(3) _ c]) simp_all
  have m: "missing_columns example_table = []"
    by (simp add: missing_columns_def required_columns_def example_table_def)
  have f: "fst (calculate_free_cash_flow (example_inputs (1 / 10) (1 / 50) 5)) \<noteq> PyNone"
    by (simp add: model_defs Let_def)
  have l: "load_data init (Inr example_table) = (PyBool True, example_loaded)"
    by (simp add: load_data_ok [OF m] example_loaded_eq)
  have "test_run (Inr example_table) True = [Load, FreeCashFlow, Projection, Valuation]"
    using n f
    by (cases "fst (calculate_free_cash_flow (example_inputs (1 / 10) (1 / 50) 5))")
      (simp_all add: test_run_def l example_projected_def example_inputs_def case_prod_beta)
  with c n one show ?thesis by simp
qed

text \<open>
  C5 (as amended). With WACC equal to the terminal growth rate no exception is raised
  for the division by zero. Every result the method returns then has a Terminal Value,
  a PV of Terminal Value and a Total Value that are infinite or NaN; and for a
  projection of one year the method does return such a result, with
  \<open>PV of FCF = FCF / (1 + WACC)\<close> and \<open>Terminal Value = FCF * (1 + WACC) / 0\<close>.
\<close>

theorem calculate_dcf_value_wacc_equals_growth:
  assumes "wacc s = Some w" "terminal_growth s = Some w"
  shows "(\<forall>r. calculate_dcf_value s = PyDict r \<longrightarrow>
            \<not> is_finite (Terminal_Value r) \<and> \<not> is_finite (PV_of_Terminal_Value r) \<and>
            \<not> is_finite (Total_Value r)) \<and>
         (\<forall>p f. projection_years s = Some 1 \<and> projections s = Some p \<and> p ''FCF'' = Some [f] \<longrightarrow>
            (\<exists>r. calculate_dcf_value s = PyDict r \<and> PV_of_FCF r = fdiv f (Fin (1 + w)) \<and>
                 Terminal_Value r = fdiv (fmul f (Fin (1 + w))) (Fin 0)))"
proof -
  have special: "\<not> is_finite (Terminal_Value r) \<and> \<not> is_finite (PV_of_Terminal_Value r) \<and>
            \<not> is_finite (Total_Value r)" if res: "calculate_dcf_value s = PyDict r" for r
  proof -
    from dcf_value_result [OF res] assms obtain fcf d where
      tv: "Terminal_Value r = fdiv (fmul (last fcf) (Fin (1 + w))) (Fin 0)"
      and pt: "PV_of_Terminal_Value r = fdiv (Terminal_Value r) (Fin d)"
      and tt: "Total_Value r = fadd (PV_of_FCF r) (PV_of_Terminal_Value r)"
      by auto
    have 1: "\<not> is_finite (Terminal_Value r)"
      by (simp add: tv fdiv_zero_special)
    then have 2: "\<not> is_finite (PV_of_Terminal_Value r)"
      by (simp add: pt fdiv_special_left)
    then have 3: "\<not> is_finite (Total_Value r)"
      by (simp add: tt fadd_special_right)
    from 1 2 3 show ?thesis by simp
  qed
  have one: "\<exists>r. calculate_dcf_value s = PyDict r \<and> PV_of_FCF r = fdiv f (Fin (1 + w)) \<and>
                 Terminal_Value r = fdiv (fmul f (Fin (1 + w))) (Fin 0)"
    if "projection_years s = Some 1 \<and> projections s = Some p \<and> p ''FCF'' = Some [f]" for p f
    using that assms by (simp add: dcf_value_one_year [of s p f w w])
  from special one show ?thesis by blast
qed

theorem calculate_dcf_value_wacc_equals_growth_witness:
  "wacc (example_projected (1 / 20) (1 / 20) 1) = Some (1 / 20) \<and>
   terminal_growth (example_projected (1 / 20) (1 / 20) 1) = Some (1 / 20) \<and>
   projection_years (example_projected (1 / 20) (1 / 20) 1) = Some 1 \<and>
   (\<exists>r. calculate_dcf_value (example_projected (1 / 20) (1 / 20) 1) = PyDict r \<and>
        PV_of_FCF r = Fin (19987 / 1050) \<and> Terminal_Value r = PInf \<and>
        \<not> is_finite (Terminal_Value r) \<and> \<not> is_finite (PV_of_Terminal_Value r) \<and>
        \<not> is_finite (Total_Value r))"
proof -
  let ?s = "example_projected (1 / 20) (1 / 20) 1"
  have w: "wacc ?s = Some (1 / 20)" and t: "terminal_growth ?s = Some (1 / 20)"
    and n: "projection_years ?s = Some 1"
    by (simp_all add: example_projected_inputs)
  obtain p where p: "projections ?s = Some p" "p ''FCF'' = Some [Fin (19987 / 1000)]"
    using example_projections_1 by blast
  note main = calculate_dcf_value_wacc_equals_growth [OF w t]
  from main n p obtain r where r: "calculate_dcf_value ?s = PyDict r"
    "PV_of_FCF r = fdiv (Fin (19987 / 1000)) (Fin (1 + 1 / 20))"
    "Terminal_Value r = fdiv (fmul (Fin (19987 / 1000)) (Fin (1 + 1 / 20))) (Fin 0)"
    by blast
  from main r(1) have s: "\<not> is_finite (Terminal_Value r)" "\<not> is_finite (PV_of_Terminal_Value r)"
    "\<not> is_finite (Total_Value r)" by blast+
  have "PV_of_FCF r = Fin (19987 / 1050)" "Terminal_Value r = PInf"
    using r(2,3) by (simp_all add: signed_inf_def)
  with w t n r(1) s show ?thesis by blast
qed

text \<open>
  C5 as stated fails: with WACC and terminal growth both 0.05 and one projected year
  the method returns a dictionary whose Terminal Value is \<open>+inf\<close>.
\<close>

theorem calculate_dcf_value_returns_infinity:
  "wacc (example_projected (1 / 20) (1 / 20) 1) = terminal_growth (example_projected (1 / 20) (1 / 20) 1) \<and>
   calculate_dcf_value (example_projected (1 / 20) (1 / 20) 1) =
     PyDict \<lparr>PV_of_FCF = Fin (19987 / 1050), Terminal_Value = PInf,
             PV_of_Terminal_Value = PInf, Total_Value = PInf\<rparr>"
proof -
  obtain p where p: "projections (example_projected (1 / 20) (1 / 20) 1) = Some p"
    "p ''FCF'' = Some [Fin (19987 / 1000)]"
    using example_projections_1 by blast
  show ?thesis
    using dcf_value_one_year [OF example_projected_inputs(3) p example_projected_inputs(1,2)]
    by (simp add: example_projected_inputs signed_inf_def)
qed

section \<open>Properties of the growth rates\<close>

text \<open>
  C4 (as amended). The growth rates that \<open>project_financials\<close> builds from a finite
  historical growth \<open>h\<close>, the terminal growth rate \<open>t\<close> and \<open>n\<close> years: for \<open>n = 1\<close>
  the sequence is the single entry \<open>h\<close> (the terminal rate is not used); for
  \<open>n \<ge> 2\<close> it has exactly \<open>n\<close> entries, the first is \<open>h\<close>, the last is \<open>t\<close>, entry \<open>i\<close>
  (from 0) is \<open>h + i * (t - h) / (n - 1)\<close> (evenly spaced), and the sequence is
  monotonic: non-increasing when \<open>t \<le> h\<close>, non-decreasing otherwise.
\<close>

theorem growth_rates_interpolate:
  assumes "1 \<le> n"
  shows "(n = 1 \<longrightarrow> growth_rates_of (Fin h) (Some t) n = Inr [Fin h]) \<and>
         (2 \<le> n \<longrightarrow>
            (\<exists>g. growth_rates_of (Fin h) (Some t) n = Inr g \<and> length g = nat n \<and>
                 hd g = Fin h \<and> last g = Fin t \<and>
                 (\<forall>i < nat n. g ! i = Fin (h + real i * ((t - h) / real_of_int (n - 1)))) \<and>
                 (\<forall>i j. i \<le> j \<and> j < nat n \<longrightarrow>
                    (if t \<le> h then fle (g ! j) (g ! i) else fle (g ! i) (g ! j)))))"
proof (intro conjI impI)
  assume "n = 1"
  then show "growth_rates_of (Fin h) (Some t) n = Inr [Fin h]"
    by (simp add: growth_rates_of_def linspace_one)
next
  assume n: "2 \<le> n"
  let ?c = "(t - h) / real_of_int (n - 1)"
  let ?g = "map (\<lambda>i. Fin (h + real i * ?c)) [0..<nat n]"
  from n have pos: "0 < real_of_int (n - 1)" by simp
  have run: "growth_rates_of (Fin h) (Some t) n = Inr ?g"
    using n by (simp add: growth_rates_of_def linspace_real)
  have len: "length ?g = nat n" by simp
  have nth: "\<forall>i < nat n. ?g ! i = Fin (h + real i * ?c)" by simp
  have ne: "?g \<noteq> []" using n by simp
  have "hd ?g = ?g ! 0" by (rule hd_conv_nth [OF ne])
  also have "\<dots> = Fin h" using n by simp
  finally have first: "hd ?g = Fin h" .
  have step: "real (nat n - 1) * ?c = t - h"
  proof -
    have "real (nat n - 1) = real_of_int (n - 1)" using n by simp
    then show ?thesis using pos by simp
  qed
  have "last ?g = ?g ! (length ?g - 1)" by (rule last_conv_nth [OF ne])
  also have "\<dots> = Fin (h + real (nat n - 1) * ?c)" using n by simp
  also have "\<dots> = Fin t" by (simp only: step) simp
  finally have final: "last ?g = Fin t" .
  have mono: "\<forall>i j. i \<le> j \<and> j < nat n \<longrightarrow>
                    (if t \<le> h then fle (?g ! j) (?g ! i) else fle (?g ! i) (?g ! j))"
  proof (intro allI impI)
    fix i j :: nat
    assume ij: "i \<le> j \<and> j < nat n"
    then have r: "real i \<le> real j" by simp
    show "if t \<le> h then fle (?g ! j) (?g ! i) else fle (?g ! i) (?g ! j)"
    proof (cases "t \<le> h")
      case True
      with pos have "?c \<le> 0" by (simp add: divide_nonpos_pos)
      with r have "real j * ?c \<le> real i * ?c" by (rule mult_right_mono_neg)
      with True ij show ?thesis by simp
    next
      case False
      with pos have "0 \<le> ?c" by simp
      with r have "real i * ?c \<le> real j * ?c" by (rule mult_right_mono)
      with False ij show ?thesis by simp
    qed
  qed
  from run len nth first final mono
  show "\<exists>g. growth_rates_of (Fin h) (Some t) n = Inr g \<and> length g = nat n \<and>
                 hd g = Fin h \<and> last g = Fin t \<and>
                 (\<forall>i < nat n. g ! i = Fin (h + real i * ((t - h) / real_of_int (n - 1)))) \<and>
                 (\<forall>i j. i \<le> j \<and> j < nat n \<longrightarrow>
                    (if t \<le> h then fle (g ! j) (g ! i) else fle (g ! i) (g ! j)))"
    by blast
qed

theorem growth_rates_interpolate_witness:
  "(1::int) \<le> 5 \<and> (2::int) \<le> 5 \<and>
   growth_rates_of (Fin (1 / 10)) (Some (1 / 50)) 1 = Inr [Fin (1 / 10)] \<and>
   (\<exists>g. growth_rates_of (Fin (1 / 10)) (Some (1 / 50)) 5 = Inr g \<and> length g = 5 \<and>
        hd g = Fin (1 / 10) \<and> last g = Fin (1 / 50) \<and>
        g ! 1 = Fin (2 / 25) \<and> g ! 3 = Fin (1 / 25) \<and> fle (g ! 3) (g ! 1))"
proof -
  have one: "growth_rates_of (Fin (1 / 10)) (Some (1 / 50)) 1 = Inr [Fin (1 / 10)]"
    using growth_rates_interpolate [of 1 "1 / 10" "1 / 50"] by simp
  from growth_rates_interpolate [of 5 "1 / 10" "1 / 50"]
  obtain g where g: "growth_rates_of (Fin (1 / 10)) (Some (1 / 50)) 5 = Inr g"
    "length g = 5" "hd g = Fin (1 / 10)" "last g = Fin (1 / 50)"
    and nth: "\<forall>i < nat 5. g ! i = Fin (1 / 10 + real i * ((1 / 50 - 1 / 10) / real_of_int (5 - 1)))"
    and mono: "\<forall>i j. i \<le> j \<and> j < nat 5 \<longrightarrow>
        (if (1 / 50 :: real) \<le> 1 / 10 then fle (g ! j) (g ! i) else fle (g ! i) (g ! j))"
    by auto
  have g1: "g ! 1 = Fin (2 / 25)" using nth [rule_format, of 1] by simp
  have g3: "g ! 3 = Fin (1 / 25)" using nth [rule_format, of 3] by simp
  have m: "fle (g ! 3) (g ! 1)" using mono [rule_format, of 1 3] by simp
  from one g g1 g3 m show ?thesis by auto
qed

text \<open>
  C4 as stated fails for one year: the sequence is the historical growth alone, and
  its last entry is not the terminal growth rate.
\<close>

theorem growth_rates_one_year:
  "growth_rates_of (Fin (1 / 10)) (Some (1 / 50)) 1 = Inr [Fin (1 / 10)] \<and>
   last [Fin (1 / 10)] \<noteq> Fin (1 / 50)"
  by (simp add: growth_rates_of_def linspace_one)

section \<open>Properties of the projected revenue\<close>

text \<open>
  C7 (as amended). For a positive last historical revenue \<open>b\<close> and every sequence of
  finite growth rates: the projected revenue of year 1 is \<open>b * (1 + growthRates[1])\<close>;
  counting the last historical revenue as the year before year 1, if revenue is
  strictly increasing year over year then every growth rate is positive; and if every
  growth rate is positive then revenue never decreases from one year to the next. The
  increase is not stated as strict: the model's finite arithmetic is exact, while in
  the doubles of the code \<open>1 + g\<close> rounds to 1 for a tiny positive \<open>g\<close>, and two
  consecutive revenues are then equal.
\<close>

theorem revenue_path_year_over_year:
  assumes "0 < b"
  shows "(gs \<noteq> [] \<longrightarrow>
            revenue_path (Fin b) (map Fin gs) (int (length gs)) ! 0 =
              fmul (Fin b) (fadd (Fin 1) (Fin (gs ! 0)))) \<and>
         ((\<forall>i < length gs.
             fless ((Fin b # revenue_path (Fin b) (map Fin gs) (int (length gs))) ! i)
                   ((Fin b # revenue_path (Fin b) (map Fin gs) (int (length gs))) ! Suc i)) \<longrightarrow>
          (\<forall>g \<in> set gs. 0 < g)) \<and>
         ((\<forall>g \<in> set gs. 0 < g) \<longrightarrow>
          (\<forall>i < length gs.
             fle ((Fin b # revenue_path (Fin b) (map Fin gs) (int (length gs))) ! i)
                 ((Fin b # revenue_path (Fin b) (map Fin gs) (int (length gs))) ! Suc i)))"
proof (intro conjI impI)
  assume ne: "gs \<noteq> []"
  then have "map Fin gs \<noteq> []" and "1 \<le> int (length gs)"
    by (simp_all add: Suc_le_eq)
  from revenue_path_first [OF this, of "Fin b"] ne
  show "revenue_path (Fin b) (map Fin gs) (int (length gs)) ! 0 =
          fmul (Fin b) (fadd (Fin 1) (Fin (gs ! 0)))"
    by (simp add: nth_map)
next
  let ?chain = "Fin b # revenue_path (Fin b) (map Fin gs) (int (length gs))"
  assume strict: "\<forall>i < length gs. fless (?chain ! i) (?chain ! Suc i)"
  have inc: "\<forall>i < length gs. b * growth_product gs i < b * growth_product gs (Suc i)"
  proof (intro allI impI)
    fix i assume i: "i < length gs"
    then have "?chain ! i = Fin (b * growth_product gs i)"
      by (intro chain_nth) simp
    moreover from i have "?chain ! Suc i = Fin (b * growth_product gs (Suc i))"
      by (intro chain_nth) simp
    moreover from strict i have "fless (?chain ! i) (?chain ! Suc i)" by blast
    ultimately show "b * growth_product gs i < b * growth_product gs (Suc i)" by simp
  qed
  from increasing_imp_positive [OF assms inc, of "length gs"]
  have "\<forall>k < length gs. 0 < gs ! k" by simp
  then show "\<forall>g \<in> set gs. 0 < g"
    by (auto simp: in_set_conv_nth)
next
  let ?chain = "Fin b # revenue_path (Fin b) (map Fin gs) (int (length gs))"
  assume pos: "\<forall>g \<in> set gs. 0 < g"
  show "\<forall>i < length gs. fle (?chain ! i) (?chain ! Suc i)"
  proof (intro allI impI)
    fix i assume i: "i < length gs"
    then have "?chain ! i = Fin (b * growth_product gs i)"
      by (intro chain_nth) simp
    moreover from i have "?chain ! Suc i = Fin (b * growth_product gs (Suc i))"
      by (intro chain_nth) simp
    moreover from positive_imp_increasing [OF assms pos i]
    have "b * growth_product gs i \<le> b * growth_product gs (Suc i)" by simp
    ultimately show "fle (?chain ! i) (?chain ! Suc i)" by simp
  qed
qed

theorem revenue_path_year_over_year_witness:
  "(0::real) < 110 \<and>
   revenue_path (Fin 110) (map Fin [1 / 10, 1 / 50]) 2 ! 0 = Fin 121 \<and>
   fless (Fin 110) (revenue_path (Fin 110) (map Fin [1 / 10, 1 / 50]) 2 ! 0) \<and>
   fless (revenue_path (Fin 110) (map Fin [1 / 10, 1 / 50]) 2 ! 0)
         (revenue_path (Fin 110) (map Fin [1 / 10, 1 / 50]) 2 ! 1) \<and>
   (0::real) < 1 / 10 \<and> (0::real) < 1 / 50 \<and>
   fle (Fin 110) (revenue_path (Fin 110) (map Fin [1 / 10, 1 / 50]) 2 ! 0) \<and>
   fle (revenue_path (Fin 110) (map Fin [1 / 10, 1 / 50]) 2 ! 0)
       (revenue_path (Fin 110) (map Fin [1 / 10, 1 / 50]) 2 ! 1)"
proof -
  have b: "(0::real) < 110" by simp
  note main = revenue_path_year_over_year [OF b, of "[1 / 10, 1 / 50]"]
  from main have first: "revenue_path (Fin 110) (map Fin [1 / 10, 1 / 50]) 2 ! 0 = Fin 121"
    by simp
  have path: "revenue_path (Fin 110) [Fin (1 / 10), Fin (1 / 50)] 2 = [Fin 121, Fin (6171 / 50)]"
    by (simp add: revenue_path_def fprod_def upto_lists)
  have strict: "\<forall>i < length [1 / 10, 1 / 50 :: real].
      fless ((Fin 110 # revenue_path (Fin 110) (map Fin [1 / 10, 1 / 50])
                (int (length [1 / 10, 1 / 50 :: real]))) ! i)
            ((Fin 110 # revenue_path (Fin 110) (map Fin [1 / 10, 1 / 50])
                (int (length [1 / 10, 1 / 50 :: real]))) ! Suc i)"
    by (simp add: path less_Suc_eq)
  from main strict have pos: "\<forall>g \<in> set [1 / 10, 1 / 50 :: real]. 0 < g"
    by blast
  from main pos have le: "\<forall>i < length [1 / 10, 1 / 50 :: real].
      fle ((Fin 110 # revenue_path (Fin 110) (map Fin [1 / 10, 1 / 50])
              (int (length [1 / 10, 1 / 50 :: real]))) ! i)
          ((Fin 110 # revenue_path (Fin 110) (map Fin [1 / 10, 1 / 50])
              (int (length [1 / 10, 1 / 50 :: real]))) ! Suc i)"
    by blast
  from le [rule_format, of 0] le [rule_format, of 1]
  have les: "fle (Fin 110) (revenue_path (Fin 110) (map Fin [1 / 10, 1 / 50]) 2 ! 0)"
    "fle (revenue_path (Fin 110) (map Fin [1 / 10, 1 / 50]) 2 ! 0)
         (revenue_path (Fin 110) (map Fin [1 / 10, 1 / 50]) 2 ! 1)"
    by simp_all
  from pos have p: "(0::real) < 1 / 10" "(0::real) < 1 / 50" by simp_all
  from b first p les show ?thesis by (simp add: path)
qed

text \<open>
  C7 as stated fails for the projected sequence on its own: from a last revenue of 110
  with the growth rates -0.5 and 0.1 the projected revenues are 55 and 60.5, strictly
  increasing, and the first growth rate is not positive.
\<close>

theorem revenue_path_projected_only:
  "revenue_path (Fin 110) [Fin (- (1 / 2)), Fin (1 / 10)] 2 = [Fin 55, Fin (121 / 2)] \<and>
   fless (Fin 55) (Fin (121 / 2)) \<and> \<not> (0::real) < - (1 / 2)"
  by (simp add: revenue_path_def fprod_def upto_lists)

section \<open>Properties of project_financials\<close>

text \<open>
  C3. For every historical table with at least 2 records (with the EBIT column that
  \<open>calculate_free_cash_flow\<close> adds) and every number of years \<open>n\<close> in 1..10,
  \<open>project_financials\<close> raises nothing and stores projections of \<open>n\<close> rows where, for
  every year \<open>i\<close> in 1..n, \<open>Revenue[i]\<close> is the last historical revenue times the product
  of \<open>1 + growthRates[k]\<close> over \<open>k = 1..i\<close>, \<open>EBIT[i] = Revenue[i] * avgMargin\<close> with
  \<open>avgMargin\<close> the mean of \<open>EBIT / Revenue\<close> over the historical records, and
  \<open>FCF[i] = EBIT[i] * (1 - 0.21)\<close>. The first part states it in the arithmetic of
  doubles for every table; the second gives the real numbers when the cells are finite
  and no revenue is zero.
\<close>

theorem project_financials_formulas:
  assumes st: "statements s = Some df"
    and cols: "df ''Revenue'' = Some revenue" "df ''EBIT'' = Some ebit"
    and recs: "2 \<le> length revenue" "length ebit = length revenue"
    and inputs: "projection_years s = Some n" "1 \<le> n" "n \<le> 10" "terminal_growth s = Some t"
  shows "\<exists>g p R E F.
     growth_rates_of (mean (pct_change revenue)) (Some t) n = Inr g \<and> length g = nat n \<and>
     project_financials_try s = (Inr PyNone, s\<lparr>projections := Some p\<rparr>) \<and>
     p ''Revenue'' = Some R \<and> p ''EBIT'' = Some E \<and> p ''FCF'' = Some F \<and>
     length R = nat n \<and> length E = nat n \<and> length F = nat n \<and>
     (\<forall>i. 1 \<le> i \<and> i \<le> nat n \<longrightarrow>
        R ! (i - 1) = fmul (last revenue) (fprod (map (fadd (Fin 1)) (take i g))) \<and>
        E ! (i - 1) = fmul (R ! (i - 1)) (mean (map2 fdiv ebit revenue)) \<and>
        F ! (i - 1) = fmul (E ! (i - 1)) (Fin (1 - 21 / 100))) \<and>
     (\<forall>rs es. revenue = map Fin rs \<and> ebit = map Fin es \<and> (\<forall>r \<in> set rs. r \<noteq> 0) \<longrightarrow>
        (\<exists>gs. g = map Fin gs \<and>
           (\<forall>i. 1 \<le> i \<and> i \<le> nat n \<longrightarrow>
              R ! (i - 1) = Fin (last rs * prod_list (map (\<lambda>x. 1 + x) (take i gs))) \<and>
              E ! (i - 1) = Fin (last rs * prod_list (map (\<lambda>x. 1 + x) (take i gs)) *
                                 (sum_list (map2 (\<lambda>e r. e / r) es rs) / real (length rs))) \<and>
              F ! (i - 1) = Fin (last rs * prod_list (map (\<lambda>x. 1 + x) (take i gs)) *
                                 (sum_list (map2 (\<lambda>e r. e / r) es rs) / real (length rs)) *
                                 (1 - 21 / 100)))))"
proof -
  from inputs(2) have n0: "0 \<le> n" by simp
  from growth_rates_length [OF n0] obtain g where
    g: "growth_rates_of (mean (pct_change revenue)) (Some t) n = Inr g" "length g = nat n"
    by blast
  from recs(1) have ne: "revenue \<noteq> []" by auto
  let ?m = "mean (map2 fdiv ebit revenue)"
  let ?R = "revenue_path (last revenue) g n"
  let ?E = "map (\<lambda>x. fmul x ?m) ?R"
  let ?F = "map (\<lambda>x. fmul x after_tax) ?E"
  let ?p = "[''Revenue'' \<mapsto> ?R, ''EBIT'' \<mapsto> ?E, ''FCF'' \<mapsto> ?F]"
  have run: "project_financials_try s = (Inr PyNone, s\<lparr>projections := Some ?p\<rparr>)"
    by (rule project_financials_run [OF st cols(1) ne cols(2) inputs(1) inputs(4) g(1)])
  have look: "?p ''Revenue'' = Some ?R" "?p ''EBIT'' = Some ?E" "?p ''FCF'' = Some ?F"
    by simp_all
  have lens: "length ?R = nat n" "length ?E = nat n" "length ?F = nat n"
    by (simp_all add: length_revenue_path)
  have rows: "?R ! (i - 1) = fmul (last revenue) (fprod (map (fadd (Fin 1)) (take i g))) \<and>
        ?E ! (i - 1) = fmul (?R ! (i - 1)) ?m \<and>
        ?F ! (i - 1) = fmul (?E ! (i - 1)) (Fin (1 - 21 / 100))"
    if i: "1 \<le> i \<and> i \<le> nat n" for i
  proof -
    from i have lt: "i - 1 < nat n" and suc: "Suc (i - 1) = i" by arith+
    from revenue_path_nth [OF lt, of "last revenue" g] suc
    have "?R ! (i - 1) = fmul (last revenue) (fprod (map (fadd (Fin 1)) (take i g)))"
      by simp
    moreover have "?E ! (i - 1) = fmul (?R ! (i - 1)) ?m"
      using lt by (simp add: length_revenue_path)
    moreover have "?F ! (i - 1) = fmul (?E ! (i - 1)) (Fin (1 - 21 / 100))"
      using lt by (simp add: length_revenue_path after_tax_def)
    ultimately show ?thesis by blast
  qed
  have reals: "\<exists>gs. g = map Fin gs \<and>
           (\<forall>i. 1 \<le> i \<and> i \<le> nat n \<longrightarrow>
              ?R ! (i - 1) = Fin (last rs * prod_list (map (\<lambda>x. 1 + x) (take i gs))) \<and>
              ?E ! (i - 1) = Fin (last rs * prod_list (map (\<lambda>x. 1 + x) (take i gs)) *
                                 (sum_list (map2 (\<lambda>e r. e / r) es rs) / real (length rs))) \<and>
              ?F ! (i - 1) = Fin (last rs * prod_list (map (\<lambda>x. 1 + x) (take i gs)) *
                                 (sum_list (map2 (\<lambda>e r. e / r) es rs) / real (length rs)) *
                                 (1 - 21 / 100)))"
    if fin: "revenue = map Fin rs \<and> ebit = map Fin es \<and> (\<forall>r \<in> set rs. r \<noteq> 0)" for rs es
  proof -
    from fin have rv: "revenue = map Fin rs" and eb: "ebit = map Fin es"
      and nz: "\<forall>r \<in> set rs. r \<noteq> 0" by simp_all
    from recs rv eb have len: "2 \<le> length rs" "length es = length rs" "rs \<noteq> []" by auto
    let ?h = "sum_list (map2 (\<lambda>p c. c / p - 1) rs (tl rs)) / real (length rs - 1)"
    let ?a = "sum_list (map2 (\<lambda>e r. e / r) es rs) / real (length rs)"
    have h: "mean (pct_change revenue) = Fin ?h"
      unfolding rv by (rule historical_growth_Fin [OF nz len(1)])
    have a: "?m = Fin ?a"
      unfolding rv eb by (rule avg_margin_Fin [OF nz len(3) len(2)])
    from growth_rates_Fin [OF inputs(2), of ?h t] g(1) h obtain gs where gs: "g = map Fin gs"
      by auto
    have base: "last revenue = Fin (last rs)"
      unfolding rv using len(3) by (simp add: last_map)
    have "?R ! (i - 1) = Fin (last rs * prod_list (map (\<lambda>x. 1 + x) (take i gs))) \<and>
          ?E ! (i - 1) = Fin (last rs * prod_list (map (\<lambda>x. 1 + x) (take i gs)) * ?a) \<and>
          ?F ! (i - 1) = Fin (last rs * prod_list (map (\<lambda>x. 1 + x) (take i gs)) * ?a *
                              (1 - 21 / 100))"
      if i: "1 \<le> i \<and> i \<le> nat n" for i
    proof -
      from i have lt: "i - 1 < nat n" and suc: "Suc (i - 1) = i" by arith+
      from revenue_path_nth_real [OF lt, of "last rs" gs] suc
      have r: "?R ! (i - 1) = Fin (last rs * prod_list (map (\<lambda>x. 1 + x) (take i gs)))"
        by (simp add: base gs)
      from rows [OF i] have "?E ! (i - 1) = fmul (?R ! (i - 1)) ?m"
        and "?F ! (i - 1) = fmul (?E ! (i - 1)) (Fin (1 - 21 / 100))" by simp_all
      with r a show ?thesis by simp
    qed
    with gs show ?thesis by blast
  qed
  from g run look lens rows reals show ?thesis
    by (intro exI [of _ g] exI [of _ ?p] exI [of _ ?R] exI [of _ ?E] exI [of _ ?F]) blast
qed

theorem project_financials_formulas_witness:
  "(\<exists>df. statements (prepared example_table 2) = Some df \<and>
         df ''Revenue'' = Some [Fin 100, Fin 110] \<and> df ''EBIT'' = Some [Fin 20, Fin 24]) \<and>
   projection_years (prepared example_table 2) = Some 2 \<and>
   terminal_growth (prepared example_table 2) = Some (1 / 50) \<and>
   (\<exists>p R E F.
      project_financials_try (prepared example_table 2) =
        (Inr PyNone, (prepared example_table 2)\<lparr>projections := Some p\<rparr>) \<and>
      p ''Revenue'' = Some R \<and> p ''EBIT'' = Some E \<and> p ''FCF'' = Some F \<and>
      length R = 2 \<and> length E = 2 \<and> length F = 2 \<and>
      R ! 0 = Fin 121 \<and> E ! 0 = Fin (253 / 10) \<and> F ! 0 = Fin (19987 / 1000) \<and>
      R ! 1 = Fin (6171 / 50) \<and> E ! 1 = Fin (12903 / 500) \<and> F ! 1 = Fin (1019337 / 50000))"
proof -
  let ?s = "prepared example_table 2"
  obtain df where st: "statements ?s = Some df"
    and rv: "df ''Revenue'' = Some [Fin 100, Fin 110]"
    and eb: "df ''EBIT'' = Some [Fin 20, Fin 24]"
    using prepared_example by blast
  have n: "projection_years ?s = Some 2" and t: "terminal_growth ?s = Some (1 / 50)"
    by (simp_all add: prepared_inputs)
  from project_financials_formulas [OF st rv eb _ _ n _ _ t]
  obtain g p R E F where
    g: "growth_rates_of (mean (pct_change [Fin 100, Fin 110])) (Some (1 / 50)) 2 = Inr g"
    and run: "project_financials_try ?s = (Inr PyNone, ?s\<lparr>projections := Some p\<rparr>)"
    and look: "p ''Revenue'' = Some R" "p ''EBIT'' = Some E" "p ''FCF'' = Some F"
    and lens: "length R = 2" "length E = 2" "length F = 2"
    and reals: "\<forall>rs es. [Fin 100, Fin 110] = map Fin rs \<and> [Fin 20, Fin 24] = map Fin es \<and>
          (\<forall>r \<in> set rs. r \<noteq> 0) \<longrightarrow>
        (\<exists>gs. g = map Fin gs \<and>
           (\<forall>i. 1 \<le> i \<and> i \<le> nat 2 \<longrightarrow>
              R ! (i - 1) = Fin (last rs * prod_list (map (\<lambda>x. 1 + x) (take i gs))) \<and>
              E ! (i - 1) = Fin (last rs * prod_list (map (\<lambda>x. 1 + x) (take i gs)) *
                                 (sum_list (map2 (\<lambda>e r. e / r) es rs) / real (length rs))) \<and>
              F ! (i - 1) = Fin (last rs * prod_list (map (\<lambda>x. 1 + x) (take i gs)) *
                                 (sum_list (map2 (\<lambda>e r. e / r) es rs) / real (length rs)) *
                                 (1 - 21 / 100))))"
    by auto
  from g have g_eq: "g = [Fin (1 / 10), Fin (1 / 50)]"
    by (simp add: example_growth_rates)
  from reals [rule_format, of "[100, 110]" "[20, 24]"] obtain gs where
    gs: "g = map Fin gs"
    and rows: "\<forall>i. 1 \<le> i \<and> i \<le> nat 2 \<longrightarrow>
              R ! (i - 1) = Fin (last [100, 110] * prod_list (map (\<lambda>x. 1 + x) (take i gs))) \<and>
              E ! (i - 1) = Fin (last [100, 110] * prod_list (map (\<lambda>x. 1 + x) (take i gs)) *
                                 (sum_list (map2 (\<lambda>e r. e / r) [20, 24] [100, 110]) /
                                  real (length [100 :: real, 110]))) \<and>
              F ! (i - 1) = Fin (last [100, 110] * prod_list (map (\<lambda>x. 1 + x) (take i gs)) *
                                 (sum_list (map2 (\<lambda>e r. e / r) [20, 24] [100, 110]) /
                                  real (length [100 :: real, 110])) *
                                 (1 - 21 / 100))"
    by auto
  from gs g_eq have gs_eq: "gs = [1 / 10, 1 / 50]"
    by (auto simp: map_eq_Cons_conv)
  from rows [rule_format, of 1] gs_eq
  have r1: "R ! 0 = Fin 121 \<and> E ! 0 = Fin (253 / 10) \<and> F ! 0 = Fin (19987 / 1000)"
    by simp
  from rows [rule_format, of 2] gs_eq
  have r2: "R ! 1 = Fin (6171 / 50) \<and> E ! 1 = Fin (12903 / 500) \<and> F ! 1 = Fin (1019337 / 50000)"
    by simp
  from st rv eb n t run look lens r1 r2 show ?thesis by blast
qed

text \<open>
  C6 (as amended). With the Revenue and EBIT columns present and the inputs set:
  \<open>project_financials\<close> reports a failure (IndexError, the projections left empty) when
  the historical table has no record. With one record or more it raises nothing,
  whatever the values (a zero revenue included: the divisions give infinities or NaN),
  and stores the three projected columns; with exactly one record every projected
  Revenue, EBIT and FCF is NaN.
\<close>

theorem project_financials_few_records:
  assumes st: "statements s = Some df"
    and cols: "df ''Revenue'' = Some revenue" "df ''EBIT'' = Some ebit"
    and inputs: "projection_years s = Some n" "1 \<le> n" "terminal_growth s = Some t"
  shows "(revenue = [] \<longrightarrow>
            project_financials_try s = (Inl IndexError, s\<lparr>projections := Some Map.empty\<rparr>)) \<and>
         (revenue \<noteq> [] \<longrightarrow>
            (\<exists>p R E F.
               project_financials_try s = (Inr PyNone, s\<lparr>projections := Some p\<rparr>) \<and>
               p ''Revenue'' = Some R \<and> p ''EBIT'' = Some E \<and> p ''FCF'' = Some F \<and>
               length R = nat n \<and> length E = nat n \<and> length F = nat n \<and>
               (length revenue = 1 \<longrightarrow> (\<forall>x \<in> set R \<union> set E \<union> set F. x = NaN))))"
proof (intro conjI impI)
  assume "revenue = []"
  with cols(1) have "df ''Revenue'' = Some []" by simp
  from project_financials_no_records [OF st this inputs(1) _ inputs(3)] inputs(2)
  show "project_financials_try s = (Inl IndexError, s\<lparr>projections := Some Map.empty\<rparr>)"
    by simp
next
  assume ne: "revenue \<noteq> []"
  from inputs(2) have n0: "0 \<le> n" by simp
  from growth_rates_length [OF n0] obtain g where
    g: "growth_rates_of (mean (pct_change revenue)) (Some t) n = Inr g" "length g = nat n"
    by blast
  let ?m = "mean (map2 fdiv ebit revenue)"
  let ?R = "revenue_path (last revenue) g n"
  let ?E = "map (\<lambda>x. fmul x ?m) ?R"
  let ?F = "map (\<lambda>x. fmul x after_tax) ?E"
  let ?p = "[''Revenue'' \<mapsto> ?R, ''EBIT'' \<mapsto> ?E, ''FCF'' \<mapsto> ?F]"
  have run: "project_financials_try s = (Inr PyNone, s\<lparr>projections := Some ?p\<rparr>)"
    by (rule project_financials_run [OF st cols(1) ne cols(2) inputs(1) inputs(3) g(1)])
  have look: "?p ''Revenue'' = Some ?R" "?p ''EBIT'' = Some ?E" "?p ''FCF'' = Some ?F"
    by simp_all
  have lens: "length ?R = nat n" "length ?E = nat n" "length ?F = nat n"
    by (simp_all add: length_revenue_path)
  have nan: "\<forall>x \<in> set ?R \<union> set ?E \<union> set ?F. x = NaN" if one: "length revenue = 1"
  proof -
    from one obtain r where "revenue = [r]"
      by (cases revenue) simp_all
    then have "mean (pct_change revenue) = NaN"
      by (simp add: pct_change_single)
    with g(1) linspace_NaN_first [OF inputs(2), of t] obtain g' where "g = NaN # g'"
      by (auto simp: growth_rates_of_def)
    then have R: "\<forall>x \<in> set ?R. x = NaN"
      using revenue_path_NaN by blast
    have E: "\<forall>x \<in> set ?E. x = NaN"
    proof
      fix x assume "x \<in> set ?E"
      then obtain r where r: "r \<in> set ?R" "x = fmul r ?m" by auto
      from R r(1) have "r = NaN" by blast
      with r(2) show "x = NaN" by simp
    qed
    have F: "\<forall>x \<in> set ?F. x = NaN"
    proof
      fix x assume "x \<in> set ?F"
      then obtain e where e: "e \<in> set ?E" "x = fmul e after_tax" by auto
      from E e(1) have "e = NaN" by blast
      with e(2) show "x = NaN" by simp
    qed
    from R E F show ?thesis by blast
  qed
  from run look lens nan
  show "\<exists>p R E F.
               project_financials_try s = (Inr PyNone, s\<lparr>projections := Some p\<rparr>) \<and>
               p ''Revenue'' = Some R \<and> p ''EBIT'' = Some E \<and> p ''FCF'' = Some F \<and>
               length R = nat n \<and> length E = nat n \<and> length F = nat n \<and>
               (length revenue = 1 \<longrightarrow> (\<forall>x \<in> set R \<union> set E \<union> set F. x = NaN))"
    by (intro exI [of _ ?p] exI [of _ ?R] exI [of _ ?E] exI [of _ ?F]) blast
qed
theorem project_financials_few_records_witness:
  "project_financials_try (prepared header_only_table 2) =
     (Inl IndexError, (prepared header_only_table 2)\<lparr>projections := Some Map.empty\<rparr>) \<and>
   (\<exists>p. project_financials_try (prepared single_record_table 2) =
          (Inr PyNone, (prepared single_record_table 2)\<lparr>projections := Some p\<rparr>) \<and>
        p ''Revenue'' = Some [NaN, NaN] \<and> p ''EBIT'' = Some [NaN, NaN] \<and>
        p ''FCF'' = Some [NaN, NaN])"
proof -
  obtain dh where dh: "statements (prepared header_only_table 2) = Some dh"
    "dh ''Revenue'' = Some []" "dh ''EBIT'' = Some []"
    using prepared_header by blast
  obtain ds where ds: "statements (prepared single_record_table 2) = Some ds"
    "ds ''Revenue'' = Some [Fin 100]" "ds ''EBIT'' = Some [Fin 20]"
    using prepared_single by blast
  have n: "(1::int) \<le> 2" by simp
  from project_financials_few_records
    [OF dh prepared_inputs(1) n prepared_inputs(2)]
  have a: "project_financials_try (prepared header_only_table 2) =
     (Inl IndexError, (prepared header_only_table 2)\<lparr>projections := Some Map.empty\<rparr>)"
    by simp
  from project_financials_few_records
    [OF ds prepared_inputs(1) n prepared_inputs(2)]
  obtain p R E F where
    run: "project_financials_try (prepared single_record_table 2) =
          (Inr PyNone, (prepared single_record_table 2)\<lparr>projections := Some p\<rparr>)"
    and look: "p ''Revenue'' = Some R" "p ''EBIT'' = Some E" "p ''FCF'' = Some F"
    and lens: "length R = 2" "length E = 2" "length F = 2"
    and nan: "\<forall>x \<in> set R \<union> set E \<union> set F. x = NaN"
    by auto
  from lens nan have "R = [NaN, NaN]" "E = [NaN, NaN]" "F = [NaN, NaN]"
    by (auto intro!: all_NaN_2)
  with a run look show ?thesis by blast
qed

text \<open>
  C6 as stated fails on both counts: with a single record, and with a zero revenue in
  a record, the \<open>try\<close> block ends normally and the FCF column is stored (NaN for the
  single record, zeros for the table whose last revenue and EBIT are zero).
\<close>

theorem project_financials_completes_examples:
  "column (statements (prepared single_record_table 2)) ''Revenue'' = Inr [Fin 100] \<and>
   fst (project_financials_try (prepared single_record_table 2)) = Inr PyNone \<and>
   column (projections (snd (project_financials_try (prepared single_record_table 2)))) ''FCF'' =
     Inr [NaN, NaN] \<and>
   column (statements (prepared zero_revenue_table 2)) ''Revenue'' = Inr [Fin 100, Fin 0] \<and>
   fst (project_financials_try (prepared zero_revenue_table 2)) = Inr PyNone \<and>
   column (projections (snd (project_financials_try (prepared zero_revenue_table 2)))) ''FCF'' =
     Inr [Fin 0, Fin 0]"
proof -
  obtain ds where ds: "statements (prepared single_record_table 2) = Some ds"
    "ds ''Revenue'' = Some [Fin 100]" "ds ''EBIT'' = Some [Fin 20]"
    using prepared_single by blast
  obtain dz where dz: "statements (prepared zero_revenue_table 2) = Some dz"
    "dz ''Revenue'' = Some [Fin 100, Fin 0]" "dz ''EBIT'' = Some [Fin 20, Fin 0]"
    using prepared_zero by blast
  have gs: "growth_rates_of (mean (pct_change [Fin 100])) (Some (1 / 50)) 2 = Inr [NaN, Fin (1 / 50)]"
    by (simp add: growth_rates_of_def num_defs Let_def upt_lists)
  have gz: "growth_rates_of (mean (pct_change [Fin 100, Fin 0])) (Some (1 / 50)) 2 =
      Inr [Fin (- 1), Fin (1 / 50)]"
    by (simp add: growth_rates_of_def num_defs Let_def upt_lists)
  have s: "project_financials_try (prepared single_record_table 2) =
      (Inr PyNone, (prepared single_record_table 2)\<lparr>projections := Some
         [''Revenue'' \<mapsto> [NaN, NaN], ''EBIT'' \<mapsto> [NaN, NaN], ''FCF'' \<mapsto> [NaN, NaN]]\<rparr>)"
    using project_financials_run [OF ds(1,2) _ ds(3) prepared_inputs(1,2) gs]
    by (simp add: revenue_path_def fprod_def upto_lists)
  have z: "project_financials_try (prepared zero_revenue_table 2) =
      (Inr PyNone, (prepared zero_revenue_table 2)\<lparr>projections := Some
         [''Revenue'' \<mapsto> [Fin 0, Fin 0], ''EBIT'' \<mapsto> [Fin 0, Fin 0],
          ''FCF'' \<mapsto> [Fin 0, Fin 0]]\<rparr>)"
    using project_financials_run [OF dz(1,2) _ dz(3) prepared_inputs(1,2) gz]
    by (simp add: revenue_path_def fprod_def upto_lists mean_def after_tax_def signed_inf_def)
  show ?thesis
    using ds dz by (simp add: s z column_Some)
qed

text \<open>
  C9. The claim: every stage returns a failure value distinguishable from its success
  value, and the caller inspects it and skips the later stages. \<open>project_financials\<close>
  returns \<open>None\<close> when its \<open>try\<close> block fails (a table with no record) and \<open>None\<close> when
  it succeeds (the example table), and \<open>test_run\<close> discards that value: after the failed
  projection the valuation is still called.
\<close>

theorem project_financials_sentinel:
  "fst (project_financials_try (prepared header_only_table 5)) = Inl IndexError \<and>
   fst (project_financials (prepared header_only_table 5)) = PyNone \<and>
   fst (project_financials_try (prepared example_table 5)) = Inr PyNone \<and>
   fst (project_financials (prepared example_table 5)) = PyNone \<and>
   test_run (Inr header_only_table) True = [Load, FreeCashFlow, Projection, Valuation]"
proof -
  obtain dh where dh: "statements (prepared header_only_table 5) = Some dh"
    "dh ''Revenue'' = Some []" "dh ''EBIT'' = Some []"
    using prepared_header by blast
  obtain de where de: "statements (prepared example_table 5) = Some de"
    "de ''Revenue'' = Some [Fin 100, Fin 110]" "de ''EBIT'' = Some [Fin 20, Fin 24]"
    using prepared_example by blast
  have h: "project_financials_try (prepared header_only_table 5) =
      (Inl IndexError, (prepared header_only_table 5)\<lparr>projections := Some Map.empty\<rparr>)"
    by (rule project_financials_no_records [OF dh(1,2) prepared_inputs(1) _ prepared_inputs(2)])
      simp
  obtain g where g: "growth_rates_of (mean (pct_change [Fin 100, Fin 110])) (Some (1 / 50)) 5 = Inr g"
    using growth_rates_length [of 5] by auto
  have e: "fst (project_financials_try (prepared example_table 5)) = Inr PyNone"
    using project_financials_run [OF de(1,2) _ de(3) prepared_inputs(1,2) g] by simp
  have v: "calculate_dcf_value
      ((prepared header_only_table 5)\<lparr>projections := Some Map.empty\<rparr>) = PyNone"
    by (simp add: calculate_dcf_value_def calculate_dcf_value_try_def prepared_inputs
        upto_lists discounted_def column_Some)
  have l: "load_data init (Inr header_only_table) =
      (PyBool True, init\<lparr>statements := Some header_only_table\<rparr>)"
    by (rule load_data_ok) (simp add: missing_columns_def required_columns_def header_only_table_def)
  have f: "fst (calculate_free_cash_flow
        (init\<lparr>statements := Some header_only_table, wacc := Some (1 / 10),
           terminal_growth := Some (1 / 50), projection_years := Some 5\<rparr>)) = PySeries []"
    by (simp add: calculate_free_cash_flow_def calculate_free_cash_flow_try_def
        column_def assign_statements_def init_def header_only_table_def)
  have p: "snd (calculate_free_cash_flow
        (init\<lparr>statements := Some header_only_table, wacc := Some (1 / 10),
           terminal_growth := Some (1 / 50), projection_years := Some 5\<rparr>)) =
      prepared header_only_table 5"
    by (simp add: prepared_def l)
  have t: "test_run (Inr header_only_table) True =
      [Load, FreeCashFlow, Projection, Valuation]"
    by (simp add: test_run_def l case_prod_beta f p project_financials_def h v)
  from h e t show ?thesis
    by (simp add: project_financials_def case_prod_beta split: sum.splits)
qed

end
